theory Spec2Isabelle
  imports Complex_Main "HOL-Library.Sublist"
begin

section \<open>JavaScript values\<close>

text \<open>
  The radar backend is JavaScript. A number of the program is modelled by a real (every
  finite double is a real, and a comparison of a double with a literal such as \<open>10\<close>
  is the comparison of the reals); the two infinities, \<open>NaN\<close>, \<open>null\<close> and
  \<open>undefined\<close> are values of their own, since the decoder tests for them. Arithmetic
  on finite numbers is the arithmetic of the reals: rounding of doubles is not modelled.
\<close>

datatype jsval = Num real | PosInf | NegInf | NaN | Null | Undefined

text \<open>\<open>v < c\<close> for a finite literal \<open>c\<close>: \<open>null\<close> converts to \<open>0\<close>,
  \<open>undefined\<close> to \<open>NaN\<close>, and every comparison with \<open>NaN\<close> is false.\<close>

fun js_lt :: "jsval \<Rightarrow> real \<Rightarrow> bool" where
  "js_lt (Num r) c = (r < c)"
| "js_lt PosInf c = False"
| "js_lt NegInf c = True"
| "js_lt NaN c = False"
| "js_lt Null c = (0 < c)"
| "js_lt Undefined c = False"

section \<open>The processor's classifier (radarProcessor.js)\<close>

definition reflectivityToPrecipitation :: "jsval \<Rightarrow> string" where
  "reflectivityToPrecipitation reflectivity =
     (if js_lt reflectivity 10 then ''none''
      else if js_lt reflectivity 20 then ''light''
      else if js_lt reflectivity 30 then ''moderate''
      else if js_lt reflectivity 40 then ''heavy''
      else ''extreme'')"

definition processor_getColorForReflectivity :: "jsval \<Rightarrow> string" where
  "processor_getColorForReflectivity reflectivity =
     (if js_lt reflectivity 10 then ''#ffffff''
      else if js_lt reflectivity 20 then ''#00ff00''
      else if js_lt reflectivity 30 then ''#ffff00''
      else if js_lt reflectivity 40 then ''#ff8000''
      else if js_lt reflectivity 50 then ''#ff0000''
      else ''#800080'')"

section \<open>The scraper's classifier (radarScraper.js)\<close>

definition classifyPrecipitation :: "jsval \<Rightarrow> string" where
  "classifyPrecipitation reflectivity =
     (if js_lt reflectivity 20 then ''light''
      else if js_lt reflectivity 35 then ''moderate''
      else if js_lt reflectivity 45 then ''heavy''
      else ''extreme'')"

definition scraper_getColorForReflectivity :: "jsval \<Rightarrow> string" where
  "scraper_getColorForReflectivity reflectivity =
     (if js_lt reflectivity 20 then ''#00ff00''
      else if js_lt reflectivity 35 then ''#ffff00''
      else if js_lt reflectivity 45 then ''#ff8000''
      else ''#ff0000'')"

section \<open>Radar points of the scraper\<close>

text \<open>
  The scraper builds plain objects. A point of the decoder carries \<open>source\<close> and
  \<open>field\<close>, a point of the station and mock generators carries \<open>station\<close>; a
  property an object does not have is \<open>None\<close>. \<open>coordinates\<close> is the array
  \<open>[lon, lat]\<close>. The \<open>timestamp\<close> property (the wall clock at creation) is
  left out.
\<close>

record radarPoint =
  coordinates :: "jsval \<times> jsval"
  reflectivity :: jsval
  precipitation :: string
  color :: string
  source :: "string option"
  field :: "string option"
  station :: "string option"

section \<open>The decoder: convertGRIB2ToRadarPoints\<close>

text \<open>The field \<open>values\<close> is named \<open>values_a\<close> here (\<open>values\<close> is a keyword).\<close>

record fieldData =
  values_a :: "jsval list"
  latitudes :: "jsval list"
  longitudes :: "jsval list"

text \<open>Reading an array past its end gives \<open>undefined\<close>.\<close>

definition js_index :: "jsval list \<Rightarrow> nat \<Rightarrow> jsval" where
  "js_index xs i = (if i < length xs then xs ! i else Undefined)"

fun isNaN :: "jsval \<Rightarrow> bool" where
  "isNaN NaN = True"
| "isNaN Undefined = True"
| "isNaN _ = False"

text \<open>\<open>v * c\<close>, \<open>Math.min(c, v)\<close> and \<open>Math.max(c, v)\<close> for a finite literal \<open>c\<close>.\<close>

fun js_times :: "jsval \<Rightarrow> real \<Rightarrow> jsval" where
  "js_times (Num r) c = Num (r * c)"
| "js_times PosInf c = (if 0 < c then PosInf else if c < 0 then NegInf else NaN)"
| "js_times NegInf c = (if 0 < c then NegInf else if c < 0 then PosInf else NaN)"
| "js_times NaN c = NaN"
| "js_times Null c = Num 0"
| "js_times Undefined c = NaN"

fun Math_min :: "real \<Rightarrow> jsval \<Rightarrow> jsval" where
  "Math_min c (Num r) = Num (min c r)"
| "Math_min c PosInf = Num c"
| "Math_min c NegInf = NegInf"
| "Math_min c NaN = NaN"
| "Math_min c Null = Num (min c 0)"
| "Math_min c Undefined = NaN"

fun Math_max :: "real \<Rightarrow> jsval \<Rightarrow> jsval" where
  "Math_max c (Num r) = Num (max c r)"
| "Math_max c PosInf = PosInf"
| "Math_max c NegInf = Num c"
| "Math_max c NaN = NaN"
| "Math_max c Null = Num (max c 0)"
| "Math_max c Undefined = NaN"

text \<open>The string method \<open>s.includes(sub)\<close>: \<open>sub\<close> occurs in \<open>s\<close> as a contiguous substring.\<close>

fun js_includes :: "string \<Rightarrow> string \<Rightarrow> bool" where
  "js_includes [] sub = (sub = [])"
| "js_includes (c # cs) sub = (prefix sub (c # cs) \<or> js_includes cs sub)"

definition sampleRate :: "fieldData \<Rightarrow> nat" where
  "sampleRate fieldData = max 1 (length (values_a fieldData) div 1000)"

text \<open>
  The body of the loop at index \<open>i\<close>: \<open>None\<close> is the \<open>continue\<close> of an
  invalid value, \<open>Some p\<close> the point pushed.
\<close>

definition convert_sample :: "fieldData \<Rightarrow> string \<Rightarrow> nat \<Rightarrow> radarPoint option" where
  "convert_sample fieldData fieldName i =
     (let value = js_index (values_a fieldData) i;
          lat = js_index (latitudes fieldData) i;
          lon = js_index (longitudes fieldData) i
      in if value = Null \<or> value = Undefined \<or> isNaN value \<or> js_lt value 0 then None
         else
           (let reflectivity =
                  (if js_includes fieldName ''BREF'' \<or> js_includes fieldName ''REFL'' then value
                   else Math_max 0 (Math_min 70 (js_times value 10)))
            in Some \<lparr>coordinates = (lon, lat),
                      reflectivity = reflectivity,
                      precipitation = classifyPrecipitation reflectivity,
                      color = scraper_getColorForReflectivity reflectivity,
                      source = Some ''MRMS_GRIB2'',
                      field = Some fieldName,
                      station = None\<rparr>))"

function convert_loop :: "fieldData \<Rightarrow> string \<Rightarrow> nat \<Rightarrow> radarPoint list \<Rightarrow> radarPoint list" where
  "convert_loop fieldData fieldName i radarPoints =
     (if i < length (values_a fieldData) then
        (case convert_sample fieldData fieldName i of
           None \<Rightarrow> convert_loop fieldData fieldName (i + sampleRate fieldData) radarPoints
         | Some p \<Rightarrow> convert_loop fieldData fieldName (i + sampleRate fieldData) (radarPoints @ [p]))
      else radarPoints)"
  by pat_completeness auto
termination
  by (relation "measure (\<lambda>(fieldData, fieldName, i, radarPoints). length (values_a fieldData) - i)")
     (auto simp: sampleRate_def)

definition convertGRIB2ToRadarPoints :: "fieldData \<Rightarrow> string \<Rightarrow> radarPoint list" where
  "convertGRIB2ToRadarPoints fieldData fieldName = convert_loop fieldData fieldName 0 []"

section \<open>Errors and the outside world\<close>

text \<open>
  A thrown exception is the \<open>Inl\<close> of a result. What the network and the file system
  answer is not the program's: it is an environment the functions read.
  \<^item> \<open>listing\<close>: the GET of the MRMS directory, and on success the array \<open>files\<close>
    that the four \<open>href\<close> patterns of \<open>parseMRMSDirectory\<close> collect from the page;
  \<^item> \<open>download\<close>: the GET of a file and its write to the download directory;
  \<^item> \<open>grib_json\<close>: read, gunzip, \<open>grib2json\<close>, \<open>JSON.parse\<close> and the removal of the
    temporary files, and on success the entries of the decoded object (an array in a
    field holds numbers and \<open>null\<close>);
  \<^item> \<open>viewer\<close>: the GET of the viewer's product list;
  \<^item> \<open>forecast\<close>: the two GETs of a station's forecast.

  What the program writes to the console is left out, and so are the limits of the
  engine (memory, the depth of the stack): in particular the \<open>RangeError\<close> with which
  an engine answers the spread \<open>Math.min(...fieldData.values)\<close> in the log line of
  \<open>parseGRIB2File\<close> when a field has more values than a call can take arguments.
\<close>

datatype error = NetworkError | DecodeError | ReferenceError string

text \<open>An entry of the decoded object: each of the three arrays may be missing.\<close>

record jsonField =
  json_values :: "jsval list option"
  json_latitudes :: "jsval list option"
  json_longitudes :: "jsval list option"

text \<open>
  A forecast: \<open>periods\<close> is \<open>None\<close> when \<open>properties?.periods\<close> is missing, and holds
  for each period the value of \<open>period.probabilityOfPrecipitation?.value\<close>.
\<close>

record forecastData =
  periods :: "jsval list option"

record radarStation =
  station_id :: string
  station_name :: string
  station_lat :: real
  station_lon :: real

record env =
  listing :: "error + string list"
  download :: "string \<Rightarrow> error + unit"
  grib_json :: "string \<Rightarrow> error + (string \<times> jsonField) list"
  viewer :: "error + string"
  forecast :: "radarStation \<Rightarrow> error + forecastData"

section \<open>The primary strategy: the MRMS directory\<close>

text \<open>The loop of \<open>parseGRIB2File\<close> over the entries of the decoded object.\<close>

fun extract_fields :: "(string \<times> jsonField) list \<Rightarrow> radarPoint list \<Rightarrow> radarPoint list" where
  "extract_fields [] radarPoints = radarPoints"
| "extract_fields ((fieldName, fd) # rest) radarPoints =
     (case (json_values fd, json_latitudes fd, json_longitudes fd) of
        (Some vs, Some las, Some los) \<Rightarrow>
          extract_fields rest
            (radarPoints @
             convertGRIB2ToRadarPoints \<lparr>values_a = vs, latitudes = las, longitudes = los\<rparr> fieldName)
      | _ \<Rightarrow> extract_fields rest radarPoints)"

definition parseGRIB2File :: "env \<Rightarrow> string \<Rightarrow> error + radarPoint list" where
  "parseGRIB2File e filePath =
     (case grib_json e filePath of
        Inl err \<Rightarrow> Inl err
      | Inr data \<Rightarrow> Inr (extract_fields data []))"

definition downloadAndParseGRIB2 :: "env \<Rightarrow> string \<Rightarrow> error + radarPoint list" where
  "downloadAndParseGRIB2 e filename =
     (case download e filename of
        Inl err \<Rightarrow> Inl err
      | Inr _ \<Rightarrow> parseGRIB2File e filename)"

definition parseMRMSDirectory :: "env \<Rightarrow> string list \<Rightarrow> radarPoint list" where
  "parseMRMSDirectory e files =
     (if length files > 0 then
        (let latestFile =
               (case find (\<lambda>f. js_includes f ''latest'') files of
                  Some f \<Rightarrow> f
                | None \<Rightarrow> hd files)
         in case downloadAndParseGRIB2 e latestFile of
              Inl err \<Rightarrow> []
            | Inr radarPoints \<Rightarrow> radarPoints)
      else [])"

definition getMRMSNcepData :: "env \<Rightarrow> error + radarPoint list" where
  "getMRMSNcepData e =
     (case listing e of
        Inl err \<Rightarrow> Inl err
      | Inr files \<Rightarrow> Inr (parseMRMSDirectory e files))"

section \<open>The secondary strategy: the MRMS viewer\<close>

definition processMRMSProducts :: "string \<Rightarrow> radarPoint list" where
  "processMRMSProducts products = []"

definition getMRMSViewerData :: "env \<Rightarrow> error + radarPoint list" where
  "getMRMSViewerData e =
     (case viewer e of
        Inl err \<Rightarrow> Inl err
      | Inr products \<Rightarrow> Inr (processMRMSProducts products))"

section \<open>Random numbers\<close>

text \<open>
  \<open>Math.random()\<close> reads a generator and advances it. The generator is the sequence of
  the numbers it will give; the functions that draw take it and return what is left.
\<close>

type_synonym rng = "nat \<Rightarrow> real"

definition Math_random :: "rng \<Rightarrow> real \<times> rng" where
  "Math_random g = (g 0, \<lambda>n. g (Suc n))"

section \<open>The stations\<close>

definition getRadarStations :: "radarStation list" where
  "getRadarStations =
     [\<lparr>station_id = ''KTLX'', station_name = ''Oklahoma City'', station_lat = 35.3, station_lon = -97.3\<rparr>,
      \<lparr>station_id = ''KDFX'', station_name = ''Laughlin AFB'', station_lat = 29.3, station_lon = -100.3\<rparr>,
      \<lparr>station_id = ''KEWX'', station_name = ''San Antonio'', station_lat = 29.7, station_lon = -98.0\<rparr>,
      \<lparr>station_id = ''KFWS'', station_name = ''Fort Worth'', station_lat = 32.6, station_lon = -97.3\<rparr>,
      \<lparr>station_id = ''KGRK'', station_name = ''Fort Hood'', station_lat = 31.2, station_lon = -97.1\<rparr>,
      \<lparr>station_id = ''KSHV'', station_name = ''Shreveport'', station_lat = 32.4, station_lon = -93.8\<rparr>,
      \<lparr>station_id = ''KLZK'', station_name = ''Little Rock'', station_lat = 34.8, station_lon = -92.3\<rparr>,
      \<lparr>station_id = ''KPOE'', station_name = ''Fort Polk'', station_lat = 31.2, station_lon = -93.2\<rparr>,
      \<lparr>station_id = ''KLCH'', station_name = ''Lake Charles'', station_lat = 30.1, station_lon = -93.2\<rparr>,
      \<lparr>station_id = ''KLIX'', station_name = ''New Orleans'', station_lat = 30.3, station_lon = -89.8\<rparr>]"

section \<open>The tertiary strategy: a forecast for each station\<close>

text \<open>\<open>v > c\<close> and \<open>v + c\<close> for a finite literal or number \<open>c\<close>.\<close>

fun js_gt :: "jsval \<Rightarrow> real \<Rightarrow> bool" where
  "js_gt (Num r) c = (r > c)"
| "js_gt PosInf c = True"
| "js_gt NegInf c = False"
| "js_gt NaN c = False"
| "js_gt Null c = (0 > c)"
| "js_gt Undefined c = False"

fun js_plus :: "jsval \<Rightarrow> real \<Rightarrow> jsval" where
  "js_plus (Num r) c = Num (r + c)"
| "js_plus PosInf c = PosInf"
| "js_plus NegInf c = NegInf"
| "js_plus NaN c = NaN"
| "js_plus Null c = Num c"
| "js_plus Undefined c = NaN"

text \<open>
  A counted loop \<open>for (let i = 0; i < numPoints; i++)\<close> is a \<open>fold\<close> of its body over
  \<open>[0..<nat numPoints]\<close>; the state of the loop is the array being filled and the
  random generator.
\<close>

definition extract_point :: "radarStation \<Rightarrow> jsval \<Rightarrow> int \<Rightarrow> nat \<Rightarrow> radarPoint list \<times> rng \<Rightarrow> radarPoint list \<times> rng" where
  "extract_point station' pop numPoints i = (\<lambda>(data, g).
     let angle = (pi * 2 * real i) / real_of_int numPoints;
         (r1, g1) = Math_random g;
         radius = r1 * 2.0;
         lat = station_lat station' + radius * cos angle;
         lon = station_lon station' + radius * sin angle;
         baseReflectivity = pop;
         (r2, g2) = Math_random g1;
         reflectivity' = js_plus baseReflectivity (r2 * 20)
     in (data @ [\<lparr>coordinates = (Num lon, Num lat),
                   reflectivity = Math_min 50 reflectivity',
                   precipitation = classifyPrecipitation reflectivity',
                   color = scraper_getColorForReflectivity reflectivity',
                   source = None,
                   field = None,
                   station = Some (station_id station')\<rparr>], g2))"

definition extract_period :: "radarStation \<Rightarrow> jsval \<Rightarrow> radarPoint list \<times> rng \<Rightarrow> radarPoint list \<times> rng" where
  "extract_period station' pop = (\<lambda>(data, g).
     if js_gt pop 0 then
       (let (r, g1) = Math_random g;
            numPoints = \<lfloor>r * 10\<rfloor> + 5
        in fold (extract_point station' pop numPoints) [0..<nat numPoints] (data, g1))
     else (data, g))"

definition extractPrecipitationData :: "forecastData \<Rightarrow> radarStation \<Rightarrow> rng \<Rightarrow> radarPoint list \<times> rng" where
  "extractPrecipitationData forecastData station' g =
     (case periods forecastData of
        Some ps \<Rightarrow> fold (extract_period station') (take 3 ps) ([], g)
      | None \<Rightarrow> ([], g))"

definition getStationRadarData :: "env \<Rightarrow> radarStation \<Rightarrow> rng \<Rightarrow> radarPoint list \<times> rng" where
  "getStationRadarData e station' g =
     (case forecast e station' of
        Inl err \<Rightarrow> ([], g)
      | Inr forecastData \<Rightarrow> extractPrecipitationData forecastData station' g)"

definition nws_station :: "env \<Rightarrow> radarStation \<Rightarrow> radarPoint list \<times> rng \<Rightarrow> radarPoint list \<times> rng" where
  "nws_station e station' = (\<lambda>(radarData, g).
     let (data, g1) = getStationRadarData e station' g
     in (radarData @ data, g1))"

definition getNWSRadarData :: "env \<Rightarrow> rng \<Rightarrow> (error + radarPoint list) \<times> rng" where
  "getNWSRadarData e g =
     (let (radarData, g1) = fold (nws_station e) (take 5 getRadarStations) ([], g)
      in (Inr radarData, g1))"

section \<open>The mock data of the scraper: getEnhancedMockData\<close>

definition thunderstorm_point :: "radarStation \<Rightarrow> real \<Rightarrow> int \<Rightarrow> nat \<Rightarrow> radarPoint list \<times> rng \<Rightarrow> radarPoint list \<times> rng" where
  "thunderstorm_point station' intensity numPoints i = (\<lambda>(mockData, g).
     let angle = (pi * 2 * real i) / real_of_int numPoints;
         (r1, g1) = Math_random g;
         radius = r1 * 1.5;
         lat = station_lat station' + radius * cos angle;
         lon = station_lon station' + radius * sin angle;
         (r2, g2) = Math_random g1;
         reflectivity' = intensity + (r2 - 0.5) * 10
     in (mockData @ [\<lparr>coordinates = (Num lon, Num lat),
                       reflectivity = Num (max 20 (min 50 reflectivity')),
                       precipitation = classifyPrecipitation (Num reflectivity'),
                       color = scraper_getColorForReflectivity (Num reflectivity'),
                       source = None,
                       field = None,
                       station = Some (station_id station')\<rparr>], g2))"

definition generateThunderstormCell :: "radarPoint list \<Rightarrow> radarStation \<Rightarrow> rng \<Rightarrow> radarPoint list \<times> rng" where
  "generateThunderstormCell mockData station' g =
     (let (r1, g1) = Math_random g;
          numPoints = \<lfloor>r1 * 8\<rfloor> + 5;
          (r2, g2) = Math_random g1;
          intensity = 30 + r2 * 20
      in fold (thunderstorm_point station' intensity numPoints) [0..<nat numPoints] (mockData, g2))"

definition front_point :: "radarStation \<Rightarrow> real \<Rightarrow> real \<Rightarrow> int \<Rightarrow> nat \<Rightarrow> radarPoint list \<times> rng \<Rightarrow> radarPoint list \<times> rng" where
  "front_point station' direction length' numPoints i = (\<lambda>(mockData, g).
     let distance = (real i / real_of_int numPoints) * length';
         lat = station_lat station' + distance * cos direction;
         lon = station_lon station' + distance * sin direction;
         (r1, g1) = Math_random g;
         reflectivity' = 25 + r1 * 15
     in (mockData @ [\<lparr>coordinates = (Num lon, Num lat),
                       reflectivity = Num (max 20 (min 40 reflectivity')),
                       precipitation = classifyPrecipitation (Num reflectivity'),
                       color = scraper_getColorForReflectivity (Num reflectivity'),
                       source = None,
                       field = None,
                       station = Some (station_id station')\<rparr>], g1))"

definition generateWeatherFront :: "radarPoint list \<Rightarrow> radarStation \<Rightarrow> rng \<Rightarrow> radarPoint list \<times> rng" where
  "generateWeatherFront mockData station' g =
     (let (r1, g1) = Math_random g;
          numPoints = \<lfloor>r1 * 15\<rfloor> + 10;
          (r2, g2) = Math_random g1;
          direction = r2 * pi * 2;
          (r3, g3) = Math_random g2;
          length' = 2 + r3 * 3
      in fold (front_point station' direction length' numPoints) [0..<nat numPoints] (mockData, g3))"

definition showers_point :: "radarStation \<Rightarrow> nat \<Rightarrow> radarPoint list \<times> rng \<Rightarrow> radarPoint list \<times> rng" where
  "showers_point station' i = (\<lambda>(mockData, g).
     let (r1, g1) = Math_random g;
         lat = station_lat station' + (r1 - 0.5) * 4.0;
         (r2, g2) = Math_random g1;
         lon = station_lon station' + (r2 - 0.5) * 4.0;
         (r3, g3) = Math_random g2;
         reflectivity' = 15 + r3 * 20
     in (mockData @ [\<lparr>coordinates = (Num lon, Num lat),
                       reflectivity = Num (max 10 (min 35 reflectivity')),
                       precipitation = classifyPrecipitation (Num reflectivity'),
                       color = scraper_getColorForReflectivity (Num reflectivity'),
                       source = None,
                       field = None,
                       station = Some (station_id station')\<rparr>], g3))"

definition generateScatteredShowers :: "radarPoint list \<Rightarrow> radarStation \<Rightarrow> rng \<Rightarrow> radarPoint list \<times> rng" where
  "generateScatteredShowers mockData station' g =
     (let (r1, g1) = Math_random g;
          numPoints = \<lfloor>r1 * 12\<rfloor> + 8
      in fold (showers_point station') [0..<nat numPoints] (mockData, g1))"

definition mock_station :: "radarStation \<Rightarrow> radarPoint list \<times> rng \<Rightarrow> radarPoint list \<times> rng" where
  "mock_station station' = (\<lambda>(mockData, g).
     let (systemType, g1) = Math_random g
     in if systemType < 0.3 then generateThunderstormCell mockData station' g1
        else if systemType < 0.6 then generateWeatherFront mockData station' g1
        else generateScatteredShowers mockData station' g1)"

definition getEnhancedMockData :: "rng \<Rightarrow> radarPoint list \<times> rng" where
  "getEnhancedMockData g = fold mock_station getRadarStations ([], g)"

section \<open>The pipeline: getLatestRadarData\<close>

text \<open>
  The methods the pipeline calls are recorded in the order of the calls (a ghost list
  beside the result), so that "is never invoked" can be stated.
\<close>

datatype strategy_call = GetMRMSNcepData | GetMRMSViewerData | GetNWSRadarData | GetEnhancedMockData

text \<open>The test of each \<open>try\<close> block: the method returned and the array is not empty.\<close>

definition nonempty_result :: "error + radarPoint list \<Rightarrow> bool" where
  "nonempty_result r = (case r of Inl err \<Rightarrow> False | Inr radarData \<Rightarrow> length radarData > 0)"

text \<open>The body of the outer \<open>try\<close>: the three methods in order, then the mock data.\<close>

definition getLatestRadarData_try :: "env \<Rightarrow> rng \<Rightarrow> (error + radarPoint list) \<times> strategy_call list \<times> rng" where
  "getLatestRadarData_try e g =
     (let r1 = getMRMSNcepData e; calls1 = [GetMRMSNcepData]
      in if nonempty_result r1 then (r1, calls1, g)
         else
           (let r2 = getMRMSViewerData e; calls2 = calls1 @ [GetMRMSViewerData]
            in if nonempty_result r2 then (r2, calls2, g)
               else
                 (let (r3, g3) = getNWSRadarData e g; calls3 = calls2 @ [GetNWSRadarData]
                  in if nonempty_result r3 then (r3, calls3, g3)
                     else
                       (let (mockData, g4) = getEnhancedMockData g3
                        in (Inr mockData, calls3 @ [GetEnhancedMockData], g4)))))"

text \<open>The outer \<open>catch\<close> answers any exception of the body with the mock data.\<close>

definition getLatestRadarData :: "env \<Rightarrow> rng \<Rightarrow> (error + radarPoint list) \<times> strategy_call list" where
  "getLatestRadarData e g =
     (case getLatestRadarData_try e g of
        (Inl err, calls, g1) \<Rightarrow> (Inr (fst (getEnhancedMockData g1)), calls @ [GetEnhancedMockData])
      | (Inr radarData, calls, g1) \<Rightarrow> (Inr radarData, calls))"

section \<open>The mock data of the processor: createMockRadarData\<close>

text \<open>The field \<open>size\<close> of a weather system is named \<open>size_w\<close> here.\<close>

record weatherSystem =
  centerLat :: real
  centerLon :: real
  intensity :: real
  size_w :: real

definition weather_system :: "nat \<Rightarrow> weatherSystem list \<times> rng \<Rightarrow> weatherSystem list \<times> rng" where
  "weather_system i = (\<lambda>(systems, g).
     let (r1, g1) = Math_random g;
         centerLat' = 25.0 + r1 * 20.0;
         (r2, g2) = Math_random g1;
         centerLon' = -120.0 + r2 * 50.0;
         (r3, g3) = Math_random g2;
         intensity' = 20 + r3 * 30;
         (r4, g4) = Math_random g3;
         size' = 3 + r4 * 8
     in (systems @ [\<lparr>centerLat = centerLat', centerLon = centerLon',
                      intensity = intensity', size_w = size'\<rparr>], g4))"

definition generateWeatherSystems :: "rng \<Rightarrow> weatherSystem list \<times> rng" where
  "generateWeatherSystems g =
     (let (r, g1) = Math_random g;
          numSystems = \<lfloor>r * 4\<rfloor> + 3
      in fold weather_system [0..<nat numSystems] ([], g1))"

text \<open>
  \<open>parseFloat(x.toFixed(d))\<close>: the nearest multiple of \<open>10\<^sup>-\<^sup>d\<close>, a tie going away
  from zero.
\<close>

definition toFixed :: "nat \<Rightarrow> real \<Rightarrow> real" where
  "toFixed d x =
     (if x < 0 then - (real_of_int (round (- x * 10 ^ d)) / 10 ^ d)
      else real_of_int (round (x * 10 ^ d)) / 10 ^ d)"

record processorPoint =
  pt_lat :: real
  pt_lon :: real
  pt_reflectivity :: real
  pt_precipitation :: string

text \<open>The position of a point before the jitter, by one of three patterns.\<close>

definition pattern_position :: "weatherSystem \<Rightarrow> int \<Rightarrow> nat \<Rightarrow> real \<Rightarrow> rng \<Rightarrow> (real \<times> real) \<times> rng" where
  "pattern_position system numPoints i patternType g =
     (if patternType < 0.3 then
        (let angle = (pi * 2 * real i) / real_of_int numPoints;
             (r1, g1) = Math_random g;
             radius = r1 * size_w system * 2.0
         in ((centerLat system + radius * cos angle, centerLon system + radius * sin angle), g1))
      else if patternType < 0.6 then
        (let (r1, g1) = Math_random g;
             lat = centerLat system + (r1 - 0.5) * size_w system * 4.0;
             (r2, g2) = Math_random g1;
             lon = centerLon system + (r2 - 0.5) * size_w system * 4.0
         in ((lat, lon), g2))
      else
        (let (r1, g1) = Math_random g;
             direction = r1 * pi * 2;
             (r2, g2) = Math_random g1;
             distance = r2 * size_w system * 3.0
         in ((centerLat system + distance * cos direction,
              centerLon system + distance * sin direction), g2)))"

definition system_point :: "weatherSystem \<Rightarrow> int \<Rightarrow> nat \<Rightarrow> processorPoint list \<times> rng \<Rightarrow> processorPoint list \<times> rng" where
  "system_point system numPoints i = (\<lambda>(radarPoints, g).
     let (patternType, g1) = Math_random g;
         ((lat, lon), g2) = pattern_position system numPoints i patternType g1;
         (r3, g3) = Math_random g2;
         randomLat = lat + (r3 - 0.5) * 5.0;
         (r4, g4) = Math_random g3;
         randomLon = lon + (r4 - 0.5) * 5.0;
         distanceFromCenter =
           sqrt ((randomLat - centerLat system)\<^sup>2 + (randomLon - centerLon system)\<^sup>2);
         baseReflectivity = intensity system * (1 - distanceFromCenter / size_w system);
         (r5, g5) = Math_random g4;
         reflectivity' = max 5 (baseReflectivity + (r5 - 0.5) * 10)
     in if reflectivity' > 10 \<and> randomLat \<ge> 24.0 \<and> randomLat \<le> 49.0 \<and>
           randomLon \<ge> -125.0 \<and> randomLon \<le> -66.0
        then (radarPoints @ [\<lparr>pt_lat = toFixed 3 randomLat,
                               pt_lon = toFixed 3 randomLon,
                               pt_reflectivity = toFixed 1 reflectivity',
                               pt_precipitation = reflectivityToPrecipitation (Num reflectivity')\<rparr>], g5)
        else (radarPoints, g5))"

definition system_points :: "weatherSystem \<Rightarrow> processorPoint list \<times> rng \<Rightarrow> processorPoint list \<times> rng" where
  "system_points system = (\<lambda>(radarPoints, g).
     let numPoints = \<lfloor>size_w system * 50\<rfloor>
     in fold (system_point system numPoints) [0..<nat numPoints] (radarPoints, g))"

text \<open>The array \<open>radarPoints\<close> when the \<open>forEach\<close> over the weather systems is done.\<close>

definition mock_radarPoints :: "rng \<Rightarrow> processorPoint list \<times> rng" where
  "mock_radarPoints g =
     (let (weatherSystems, g1) = generateWeatherSystems g
      in fold system_points weatherSystems ([], g1))"

record feature =
  geometry_coordinates :: "real \<times> real"
  properties_reflectivity :: real
  properties_precipitation :: string
  properties_color :: string

record featureCollection =
  features :: "feature list"
  totalPoints :: nat

definition to_feature :: "processorPoint \<Rightarrow> feature" where
  "to_feature point =
     \<lparr>geometry_coordinates = (pt_lon point, pt_lat point),
      properties_reflectivity = pt_reflectivity point,
      properties_precipitation = pt_precipitation point,
      properties_color = processor_getColorForReflectivity (Num (pt_reflectivity point))\<rparr>"

text \<open>
  The object that \<open>createMockRadarData\<close> returns ends with
  \<open>bounds: { minLat, maxLat, minLon, maxLon }\<close>: four identifiers read in the scope of
  the \<open>return\<close>. The names bound there are the two locals of the function, the
  three names the module declares and the five that Node passes to every module (no
  global of JavaScript or Node has one of the four names); reading a name that is not
  bound throws a \<open>ReferenceError\<close>.
\<close>

definition createMockRadarData_scope :: "string list" where
  "createMockRadarData_scope =
     [''radarPoints'', ''weatherSystems'', ''fs'', ''path'', ''RadarProcessor'',
      ''exports'', ''require'', ''module'', ''__filename'', ''__dirname'']"

definition createMockRadarData :: "rng \<Rightarrow> error + featureCollection" where
  "createMockRadarData g =
     (let (radarPoints, g1) = mock_radarPoints g;
          features' = map to_feature radarPoints
      in case find (\<lambda>x. x \<notin> set createMockRadarData_scope)
                [''minLat'', ''maxLat'', ''minLon'', ''maxLon''] of
           Some x \<Rightarrow> Inl (ReferenceError x)
         | None \<Rightarrow> Inr \<lparr>features = features', totalPoints = length radarPoints\<rparr>)"

section \<open>The vocabulary of the specification\<close>

text \<open>
  The breakpoint table of the specification (section 4.1), a row for each line: the
  inclusive lower bound and the exclusive upper bound (\<open>None\<close>: unbounded), the
  category and the colour.
\<close>

type_synonym table_row = "real option \<times> real option \<times> string \<times> string"

definition breakpoint_table :: "table_row list" where
  "breakpoint_table =
     [(None, Some 10, ''none'', ''#ffffff''),
      (Some 10, Some 20, ''light'', ''#00ff00''),
      (Some 20, Some 30, ''moderate'', ''#ffff00''),
      (Some 30, Some 40, ''heavy'', ''#ff8000''),
      (Some 40, Some 50, ''extreme'', ''#ff0000''),
      (Some 50, None, ''extreme'', ''#800080'')]"

fun in_row :: "real \<Rightarrow> table_row \<Rightarrow> bool" where
  "in_row r (lo, hi, category, colour) =
     ((case lo of None \<Rightarrow> True | Some l \<Rightarrow> l \<le> r) \<and>
      (case hi of None \<Rightarrow> True | Some h \<Rightarrow> r < h))"

text \<open>The index of a category in \<open>none, light, moderate, heavy, extreme\<close>.\<close>

definition category_index :: "string \<Rightarrow> nat" where
  "category_index c =
     (if c = ''none'' then 0 else if c = ''light'' then 1
      else if c = ''moderate'' then 2 else if c = ''heavy'' then 3 else 4)"

text \<open>The continental box: \<open>24 \<le> lat \<le> 49\<close> and \<open>-125 \<le> lon \<le> -66\<close>.\<close>

definition in_box :: "radarPoint \<Rightarrow> bool" where
  "in_box p =
     (case coordinates p of
        (Num lon, Num lat) \<Rightarrow> 24 \<le> lat \<and> lat \<le> 49 \<and> -125 \<le> lon \<and> lon \<le> -66
      | _ \<Rightarrow> False)"

text \<open>
  The values that the specification has the decoder keep: those that are not
  \<open>null\<close>, \<open>undefined\<close>, \<open>NaN\<close> or negative, which leaves the numbers from 0
  on and \<open>Infinity\<close>.
\<close>

fun kept_value :: "jsval \<Rightarrow> bool" where
  "kept_value (Num r) = (0 \<le> r)"
| "kept_value PosInf = True"
| "kept_value _ = False"

fun js_finite :: "jsval \<Rightarrow> bool" where
  "js_finite (Num r) = True"
| "js_finite _ = False"

text \<open>What \<open>Math.random()\<close> promises: every number drawn is in \<open>[0, 1)\<close>.\<close>

definition unit_interval :: "rng \<Rightarrow> bool" where
  "unit_interval g = (\<forall>n. 0 \<le> g n \<and> g n < 1)"

text \<open>The pairs of category and colour that the scraper's classifier gives, bucket by bucket.\<close>

definition scraper_labels :: "(string \<times> string) list" where
  "scraper_labels =
     [(''light'', ''#00ff00''), (''moderate'', ''#ffff00''),
      (''heavy'', ''#ff8000''), (''extreme'', ''#ff0000'')]"

definition labelled :: "radarPoint \<Rightarrow> bool" where
  "labelled p = ((precipitation p, color p) \<in> set scraper_labels)"

text \<open>A point lies less than \<open>d\<close> degrees from a station, in latitude and in longitude.\<close>

definition near_station :: "real \<Rightarrow> radarStation \<Rightarrow> radarPoint \<Rightarrow> bool" where
  "near_station d s p =
     (case coordinates p of
        (Num lon, Num lat) \<Rightarrow> \<bar>lat - station_lat s\<bar> < d \<and> \<bar>lon - station_lon s\<bar> < d
      | _ \<Rightarrow> False)"

definition pt_in_box :: "processorPoint \<Rightarrow> bool" where
  "pt_in_box p = (24 \<le> pt_lat p \<and> pt_lat p \<le> 49 \<and> -125 \<le> pt_lon p \<and> pt_lon p \<le> -66)"

text \<open>The points of a result, none when it is an exception.\<close>

definition points_of :: "error + radarPoint list \<Rightarrow> radarPoint list" where
  "points_of r = (case r of Inl err \<Rightarrow> [] | Inr radarData \<Rightarrow> radarData)"

text \<open>
  What the station and mock generators give for a station: a point less than 5 degrees
  from it, labelled by the scraper's classifier, that carries the station's id and
  neither \<open>source\<close> nor \<open>field\<close>.
\<close>

definition station_point :: "radarStation \<Rightarrow> radarPoint \<Rightarrow> bool" where
  "station_point s p =
     (near_station 5 s p \<and> labelled p \<and> source p = None \<and> field p = None \<and>
      station p = Some (station_id s))"

definition mock_point :: "radarPoint \<Rightarrow> bool" where
  "mock_point p = (\<exists>s\<in>set getRadarStations. station_point s p)"

text \<open>
  Two environments for the examples. In \<open>offline_env\<close> every network call fails. In
  \<open>grid_env lat lon\<close> the directory lists the file \<open>MRMS_BREF_latest.grib2.gz\<close>,
  which decodes to the field \<open>BREF_1HR_MAX\<close> with the one value 15 at \<open>(lat, lon)\<close>.
\<close>

definition offline_env :: env where
  "offline_env =
     \<lparr>listing = Inl NetworkError,
      download = (\<lambda>filename. Inl NetworkError),
      grib_json = (\<lambda>filePath. Inl NetworkError),
      viewer = Inl NetworkError,
      forecast = (\<lambda>station'. Inl NetworkError)\<rparr>"

definition grid_env :: "jsval \<Rightarrow> jsval \<Rightarrow> env" where
  "grid_env lat lon =
     \<lparr>listing = Inr [''MRMS_BREF_latest.grib2.gz''],
      download = (\<lambda>filename. Inr ()),
      grib_json = (\<lambda>filePath.
        Inr [(''BREF_1HR_MAX'',
              \<lparr>json_values = Some [Num 15], json_latitudes = Some [lat],
               json_longitudes = Some [lon]\<rparr>)]),
      viewer = Inl NetworkError,
      forecast = (\<lambda>station'. Inl NetworkError)\<rparr>"

section \<open>The decoder's loop in closed form\<close>

lemma sampleRate_pos: "0 < sampleRate fd"
  by (simp add: sampleRate_def)

lemma ceil_div_step:
  fixes n i s :: nat
  assumes "i < n" "0 < s"
  shows "(n - i + s - 1) div s = Suc ((n - (i + s) + s - 1) div s)"
proof (cases "i + s \<le> n")
  case True
  define x where "x = n - (i + s) + s - 1"
  have e: "n - i + s - 1 = x + s" unfolding x_def using True assms by linarith
  have "(x + s) div s = Suc (x div s)" using assms by simp
  then show ?thesis unfolding x_def[symmetric] e .
next
  case False
  define x where "x = n - (i + s) + s - 1"
  define y where "y = n - i + s - 1"
  have "x < s" unfolding x_def using False assms by linarith
  then have a: "x div s = 0" by simp
  have "s \<le> y" unfolding y_def using assms by linarith
  then have "s * 1 \<le> y" by simp
  moreover have "y < 2 * s" unfolding y_def using assms False by linarith
  then have "y < s * Suc 1" by simp
  ultimately have "y div s = 1"
    by (rule div_nat_eqI)
  then show ?thesis unfolding x_def[symmetric] y_def[symmetric] a by simp
qed

lemma upt_0_Suc_map: "[0..<Suc m] = 0 # map Suc [0..<m]"
  by (simp add: upt_conv_Cons map_Suc_upt del: upt_Suc)

declare convert_loop.simps [simp del]

lemma convert_loop_closed:
  "convert_loop fd name i acc =
     acc @ List.map_filter (convert_sample fd name)
             (map (\<lambda>k. i + k * sampleRate fd) [0..<(length (values_a fd) - i + sampleRate fd - 1) div sampleRate fd])"
proof (induction fd name i acc rule: convert_loop.induct)
  case (1 fd name i acc)
  let ?s = "sampleRate fd" and ?n = "length (values_a fd)"
  let ?ix = "\<lambda>j. map (\<lambda>k. j + k * ?s) [0..<(?n - j + ?s - 1) div ?s]"
  show ?case
  proof (cases "i < ?n")
    case False
    then have "(?n - i + ?s - 1) div ?s = 0" using sampleRate_pos[of fd] by simp
    then have "?ix i = []" by simp
    moreover have "convert_loop fd name i acc = acc"
      using False by (subst convert_loop.simps) simp
    ultimately show ?thesis by (simp only: List.map_filter_simps append_Nil2)
  next
    case True
    have m: "(?n - i + ?s - 1) div ?s = Suc ((?n - (i + ?s) + ?s - 1) div ?s)"
      using ceil_div_step[OF True sampleRate_pos] .
    have idx: "map (\<lambda>k. i + k * ?s) [0..<Suc m] = i # map (\<lambda>k. i + ?s + k * ?s) [0..<m]" for m
      unfolding upt_0_Suc_map by (simp add: comp_def algebra_simps)
    have ix: "?ix i = i # ?ix (i + ?s)"
      unfolding m idx ..
    show ?thesis
    proof (cases "convert_sample fd name i")
      case None
      have "convert_loop fd name i acc = convert_loop fd name (i + ?s) acc"
        using True None by (subst convert_loop.simps) simp
      also have "\<dots> = acc @ List.map_filter (convert_sample fd name) (?ix (i + ?s))"
        using "1.IH"(1)[OF True None] .
      also have "List.map_filter (convert_sample fd name) (?ix (i + ?s)) =
                 List.map_filter (convert_sample fd name) (?ix i)"
        unfolding ix using None by (simp only: List.map_filter_simps option.case)
      finally show ?thesis .
    next
      case (Some p)
      have "convert_loop fd name i acc = convert_loop fd name (i + ?s) (acc @ [p])"
        using True Some by (subst convert_loop.simps) simp
      also have "\<dots> = (acc @ [p]) @ List.map_filter (convert_sample fd name) (?ix (i + ?s))"
        using "1.IH"(2)[OF True Some] .
      also have "\<dots> = acc @ List.map_filter (convert_sample fd name) (?ix i)"
        unfolding ix using Some by (simp only: List.map_filter_simps option.case append_assoc append_Cons append_Nil)
      finally show ?thesis .
    qed
  qed
qed

lemma ceiling_div_nat:
  fixes n s :: nat
  assumes "0 < s"
  shows "int ((n + s - 1) div s) = \<lceil>real n / real s\<rceil>"
proof -
  define q where "q = (n + s - 1) div s"
  have lo: "q * s \<le> n + s - 1"
    unfolding q_def by (rule div_times_less_eq_dividend)
  have "n + s - 1 < q * s + s"
    unfolding q_def using assms dividend_less_div_times[of s "n + s - 1"] by simp
  then have hi: "n \<le> q * s" using assms by linarith
  have "q * s < n + s" using lo assms by linarith
  then have "real (q * s) < real (n + s)" by (simp only: of_nat_less_iff)
  then have "(real q - 1) * real s < real n" by (simp add: algebra_simps)
  then have 1: "real_of_int (int q) - 1 < real n / real s"
    using assms by (simp add: pos_less_divide_eq)
  have "real n \<le> real (q * s)"
    using hi by (simp only: of_nat_le_iff)
  then have 2: "real n / real s \<le> real_of_int (int q)"
    using assms by (simp add: pos_divide_le_eq)
  show ?thesis
    unfolding q_def[symmetric] using ceiling_unique[OF 1 2] by simp
qed

lemma length_map_filter_le: "length (List.map_filter f xs) \<le> length xs"
  by (induction xs) (auto simp: List.map_filter_simps split: option.splits)

section \<open>The decoder\<close>

lemma convertGRIB2ToRadarPoints_closed:
  "convertGRIB2ToRadarPoints fd name =
     List.map_filter (convert_sample fd name)
       (map (\<lambda>k. k * sampleRate fd)
          [0..<(length (values_a fd) + sampleRate fd - 1) div sampleRate fd])"
  unfolding convertGRIB2ToRadarPoints_def convert_loop_closed by simp

lemma convertGRIB2ToRadarPoints_small:
  assumes "length (values_a fd) < 2000"
  shows "convertGRIB2ToRadarPoints fd name =
           List.map_filter (convert_sample fd name) [0..<length (values_a fd)]"
proof -
  have "sampleRate fd = 1" using assms by (simp add: sampleRate_def)
  then show ?thesis
    unfolding convertGRIB2ToRadarPoints_closed by (simp add: map_idI)
qed

lemma strided_index_in_range:
  fixes n s k :: nat
  assumes "0 < s" "k < (n + s - 1) div s"
  shows "k * s < n"
proof -
  have "Suc k \<le> (n + s - 1) div s" using assms(2) by simp
  then have "Suc k * s \<le> n + s - 1"
    using assms(1) by (simp only: less_eq_div_iff_mult_less_eq)
  then have "k * s + s \<le> n + s - 1" by simp
  then show ?thesis using assms(1) by linarith
qed

lemma convert_sample_SomeD:
  assumes "convert_sample fd name i = Some p" and "i < length (values_a fd)"
  shows "coordinates p = (js_index (longitudes fd) i, js_index (latitudes fd) i) \<and>
         ((\<exists>r. values_a fd ! i = Num r \<and> 0 \<le> r \<and>
               reflectivity p =
                 Num (if js_includes name ''BREF'' \<or> js_includes name ''REFL'' then r
                      else max 0 (min 70 (r * 10)))) \<or>
          (values_a fd ! i = PosInf \<and>
           reflectivity p =
             (if js_includes name ''BREF'' \<or> js_includes name ''REFL'' then PosInf else Num 70)))"
proof (cases "values_a fd ! i")
  case (Num r)
  then show ?thesis
    using assms by (auto simp: convert_sample_def js_index_def Let_def split: if_splits)
next
  case PosInf
  then show ?thesis
    using assms by (auto simp: convert_sample_def js_index_def Let_def split: if_splits)
qed (use assms in \<open>simp_all add: convert_sample_def js_index_def Let_def\<close>)

lemma in_set_map_filter:
  "p \<in> set (List.map_filter f xs) \<longleftrightarrow> (\<exists>x\<in>set xs. f x = Some p)"
  by (induction xs) (auto split: option.splits)

lemma decoder_member:
  assumes "p \<in> set (convertGRIB2ToRadarPoints fd name)"
  shows "\<exists>i<length (values_a fd). sampleRate fd dvd i \<and> convert_sample fd name i = Some p"
proof -
  from assms obtain k where k: "k < (length (values_a fd) + sampleRate fd - 1) div sampleRate fd"
    and some: "convert_sample fd name (k * sampleRate fd) = Some p"
    unfolding convertGRIB2ToRadarPoints_closed in_set_map_filter by auto
  have "k * sampleRate fd < length (values_a fd)"
    using strided_index_in_range[OF sampleRate_pos k] .
  then show ?thesis using some by auto
qed

lemma convert_sample_kept:
  assumes "i < length (values_a fd)"
  shows "convert_sample fd name i =
     (if kept_value (values_a fd ! i) then
        Some (let reflectivity' =
                   (case values_a fd ! i of
                      Num r \<Rightarrow>
                        Num (if js_includes name ''BREF'' \<or> js_includes name ''REFL'' then r
                             else max 0 (min 70 (r * 10)))
                    | v \<Rightarrow>
                        (if js_includes name ''BREF'' \<or> js_includes name ''REFL'' then v
                         else Num 70))
              in \<lparr>coordinates = (js_index (longitudes fd) i, js_index (latitudes fd) i),
                  reflectivity = reflectivity',
                  precipitation = classifyPrecipitation reflectivity',
                  color = scraper_getColorForReflectivity reflectivity',
                  source = Some ''MRMS_GRIB2'',
                  field = Some name,
                  station = None\<rparr>)
      else None)"
  using assms
  by (cases "values_a fd ! i") (simp_all add: convert_sample_def js_index_def Let_def)

lemma map_filter_if:
  assumes "\<And>x. x \<in> set xs \<Longrightarrow> f x = (if P x then Some (h x) else None)"
  shows "List.map_filter f xs = map h (filter P xs)"
  using assms by (induction xs) simp_all

text \<open>
  C7. For a field of \<open>N\<close> values the decoder samples with the stride
  \<open>max 1 (N div 1000)\<close>. Its result is, in the order of the input, one point for each
  index among \<open>0, stride, 2 * stride, ...\<close> below \<open>N\<close> (there are
  \<open>\<lceil>N / stride\<rceil>\<close> of them, each an index of the field) whose value is kept, that is,
  not \<open>null\<close>, \<open>undefined\<close>, \<open>NaN\<close> or negative; every such index is kept and
  no other. The point of an index has the coordinates and the value of the field at that
  index. So the decoder emits at most \<open>\<lceil>N / stride\<rceil>\<close> points, a strided
  subsequence of the input.
\<close>

theorem decoder_thinning:
  "convertGRIB2ToRadarPoints fd name =
     map (\<lambda>i. let reflectivity' =
                   (case values_a fd ! i of
                      Num r \<Rightarrow>
                        Num (if js_includes name ''BREF'' \<or> js_includes name ''REFL'' then r
                             else max 0 (min 70 (r * 10)))
                    | v \<Rightarrow>
                        (if js_includes name ''BREF'' \<or> js_includes name ''REFL'' then v
                         else Num 70))
              in \<lparr>coordinates = (js_index (longitudes fd) i, js_index (latitudes fd) i),
                  reflectivity = reflectivity',
                  precipitation = classifyPrecipitation reflectivity',
                  color = scraper_getColorForReflectivity reflectivity',
                  source = Some ''MRMS_GRIB2'',
                  field = Some name,
                  station = None\<rparr>)
       (filter (\<lambda>i. kept_value (values_a fd ! i))
          (map (\<lambda>k. k * max 1 (length (values_a fd) div 1000))
             [0..<nat \<lceil>real (length (values_a fd)) / real (max 1 (length (values_a fd) div 1000))\<rceil>])) \<and>
   (\<forall>k. k < nat \<lceil>real (length (values_a fd)) / real (max 1 (length (values_a fd) div 1000))\<rceil> \<longrightarrow>
        k * max 1 (length (values_a fd) div 1000) < length (values_a fd)) \<and>
   int (length (convertGRIB2ToRadarPoints fd name))
     \<le> \<lceil>real (length (values_a fd)) / real (max 1 (length (values_a fd) div 1000))\<rceil>"
proof -
  let ?n = "length (values_a fd)"
  let ?s = "max 1 (?n div 1000)"
  let ?idxs = "map (\<lambda>k. k * ?s) [0..<nat \<lceil>real ?n / real ?s\<rceil>]"
  have s: "sampleRate fd = ?s" by (simp add: sampleRate_def)
  have c: "int ((?n + ?s - 1) div ?s) = \<lceil>real ?n / real ?s\<rceil>"
    by (rule ceiling_div_nat) simp
  then have c': "(?n + ?s - 1) div ?s = nat \<lceil>real ?n / real ?s\<rceil>" by linarith
  have closed: "convertGRIB2ToRadarPoints fd name = List.map_filter (convert_sample fd name) ?idxs"
    using convertGRIB2ToRadarPoints_closed[of fd name] unfolding s c' .
  have range: "k * ?s < ?n" if "k < nat \<lceil>real ?n / real ?s\<rceil>" for k
    using strided_index_in_range[of ?s k ?n] that unfolding c' by simp
  then have in_range: "i < ?n" if "i \<in> set ?idxs" for i
    using that by auto
  have eq: "List.map_filter (convert_sample fd name) ?idxs =
     map (\<lambda>i. let reflectivity' =
                   (case values_a fd ! i of
                      Num r \<Rightarrow>
                        Num (if js_includes name ''BREF'' \<or> js_includes name ''REFL'' then r
                             else max 0 (min 70 (r * 10)))
                    | v \<Rightarrow>
                        (if js_includes name ''BREF'' \<or> js_includes name ''REFL'' then v
                         else Num 70))
              in \<lparr>coordinates = (js_index (longitudes fd) i, js_index (latitudes fd) i),
                  reflectivity = reflectivity',
                  precipitation = classifyPrecipitation reflectivity',
                  color = scraper_getColorForReflectivity reflectivity',
                  source = Some ''MRMS_GRIB2'',
                  field = Some name,
                  station = None\<rparr>)
       (filter (\<lambda>i. kept_value (values_a fd ! i)) ?idxs)"
    by (rule map_filter_if) (rule convert_sample_kept, rule in_range)
  have "length (convertGRIB2ToRadarPoints fd name) \<le> nat \<lceil>real ?n / real ?s\<rceil>"
    unfolding closed
    using length_map_filter_le[of "convert_sample fd name" ?idxs]
    by simp
  moreover have "0 \<le> \<lceil>real ?n / real ?s\<rceil>"
    unfolding c[symmetric] by simp
  ultimately have le: "int (length (convertGRIB2ToRadarPoints fd name)) \<le> \<lceil>real ?n / real ?s\<rceil>"
    by linarith
  show ?thesis
  proof (intro conjI allI impI)
    fix k
    assume "k < nat \<lceil>real ?n / real ?s\<rceil>"
    then show "k * ?s < ?n" by (rule range)
  qed (rule trans[OF closed eq], rule le)
qed

theorem decoder_thinning_witness:
  "convertGRIB2ToRadarPoints
       \<lparr>values_a = replicate 2500 (Num 5), latitudes = replicate 2500 (Num 30),
        longitudes = replicate 2500 (Num (-90))\<rparr> ''BREF_1HR_MAX'' =
     replicate 1250
       \<lparr>coordinates = (Num (-90), Num 30), reflectivity = Num 5,
        precipitation = ''light'', color = ''#00ff00'',
        source = Some ''MRMS_GRIB2'', field = Some ''BREF_1HR_MAX'', station = None\<rparr>"
proof -
  let ?fd = "\<lparr>values_a = replicate 2500 (Num 5), latitudes = replicate 2500 (Num 30),
        longitudes = replicate 2500 (Num (-90))\<rparr>"
  let ?p = "\<lparr>coordinates = (Num (-90), Num 30), reflectivity = Num 5,
        precipitation = ''light'', color = ''#00ff00'',
        source = Some ''MRMS_GRIB2'', field = Some ''BREF_1HR_MAX'', station = None\<rparr>"
  let ?F = "\<lambda>i. let reflectivity' =
                   (case values_a ?fd ! i of
                      Num r \<Rightarrow>
                        Num (if js_includes ''BREF_1HR_MAX'' ''BREF'' \<or>
                                js_includes ''BREF_1HR_MAX'' ''REFL'' then r
                             else max 0 (min 70 (r * 10)))
                    | v \<Rightarrow>
                        (if js_includes ''BREF_1HR_MAX'' ''BREF'' \<or>
                            js_includes ''BREF_1HR_MAX'' ''REFL'' then v
                         else Num 70))
              in \<lparr>coordinates = (js_index (longitudes ?fd) i, js_index (latitudes ?fd) i),
                  reflectivity = reflectivity',
                  precipitation = classifyPrecipitation reflectivity',
                  color = scraper_getColorForReflectivity reflectivity',
                  source = Some ''MRMS_GRIB2'',
                  field = Some ''BREF_1HR_MAX'',
                  station = None\<rparr>"
  define idxs where "idxs = map (\<lambda>k. k * 2) [0..<1250::nat]"
  have len: "length idxs = 1250" unfolding idxs_def by simp
  have r: "i < 2500" if "i \<in> set idxs" for i using that unfolding idxs_def by auto
  have form: "map (\<lambda>k. k * max 1 (length (values_a ?fd) div 1000))
                [0..<nat \<lceil>real (length (values_a ?fd)) / real (max 1 (length (values_a ?fd) div 1000))\<rceil>]
              = idxs"
  proof -
    have "max 1 (length (values_a ?fd) div 1000) = 2" by simp
    moreover have "nat \<lceil>real (length (values_a ?fd)) / real (2::nat)\<rceil> = 1250" by simp
    ultimately show ?thesis unfolding idxs_def by (simp only:)
  qed
  have keep: "filter (\<lambda>i. kept_value (values_a ?fd ! i)) idxs = idxs"
    by (rule filter_True) (use r in simp)
  have point: "?F i = ?p" if "i \<in> set idxs" for i
    using r[OF that]
    by (simp add: Let_def js_index_def classifyPrecipitation_def
          scraper_getColorForReflectivity_def)
  have "convertGRIB2ToRadarPoints ?fd ''BREF_1HR_MAX'' =
          map ?F (filter (\<lambda>i. kept_value (values_a ?fd ! i)) idxs)"
    using decoder_thinning[of ?fd "''BREF_1HR_MAX''", THEN conjunct1] unfolding form .
  also have "\<dots> = map ?F idxs" unfolding keep ..
  also have "\<dots> = map (\<lambda>i. ?p) idxs" by (rule map_cong[OF refl]) (rule point)
  also have "\<dots> = replicate 1250 ?p" unfolding map_replicate_const len ..
  finally show ?thesis .
qed

text \<open>
  C8, as amended. Every point the decoder emits comes from a sampled index \<open>i\<close> of the
  field whose value is a number \<open>r \<ge> 0\<close> (so not \<open>null\<close>, \<open>NaN\<close> or negative)
  or \<open>Infinity\<close>; for a field whose name contains \<open>BREF\<close> or \<open>REFL\<close> the
  reflectivity is that value unchanged, for any other field it is the value times 10
  clamped to \<open>[0, 70]\<close>. So the reflectivity is never negative, and it is finite unless
  a reflectivity-class field holds \<open>Infinity\<close>. The latitude and the longitude are
  whatever the field's arrays hold at \<open>i\<close>: the decoder does not test them.
\<close>

theorem decoder_points:
  assumes "p \<in> set (convertGRIB2ToRadarPoints fd name)"
  shows "\<exists>i<length (values_a fd).
           sampleRate fd dvd i \<and>
           coordinates p = (js_index (longitudes fd) i, js_index (latitudes fd) i) \<and>
           ((\<exists>r. values_a fd ! i = Num r \<and> 0 \<le> r \<and>
                 reflectivity p =
                   Num (if js_includes name ''BREF'' \<or> js_includes name ''REFL'' then r
                        else max 0 (min 70 (r * 10)))) \<or>
            (values_a fd ! i = PosInf \<and>
             reflectivity p =
               (if js_includes name ''BREF'' \<or> js_includes name ''REFL'' then PosInf else Num 70)))"
proof -
  from decoder_member[OF assms] obtain i where i: "i < length (values_a fd)"
    and d: "sampleRate fd dvd i" and s: "convert_sample fd name i = Some p" by blast
  from convert_sample_SomeD[OF s i] i d show ?thesis by blast
qed

theorem decoder_points_witness:
  "\<exists>i<length (values_a \<lparr>values_a = [Num 5], latitudes = [Num 30], longitudes = [Num (-90)]\<rparr>).
      sampleRate \<lparr>values_a = [Num 5], latitudes = [Num 30], longitudes = [Num (-90)]\<rparr> dvd i \<and>
      (Num (-90), Num 30) =
        (js_index (longitudes \<lparr>values_a = [Num 5], latitudes = [Num 30], longitudes = [Num (-90)]\<rparr>) i,
         js_index (latitudes \<lparr>values_a = [Num 5], latitudes = [Num 30], longitudes = [Num (-90)]\<rparr>) i) \<and>
      values_a \<lparr>values_a = [Num 5], latitudes = [Num 30], longitudes = [Num (-90)]\<rparr> ! i = Num 5"
proof -
  let ?fd = "\<lparr>values_a = [Num 5], latitudes = [Num 30], longitudes = [Num (-90)]\<rparr>"
  let ?p = "\<lparr>coordinates = (Num (-90), Num 30), reflectivity = Num 5,
             precipitation = ''light'', color = ''#00ff00'',
             source = Some ''MRMS_GRIB2'', field = Some ''BREF_1HR_MAX'', station = None\<rparr>"
  have "convertGRIB2ToRadarPoints ?fd ''BREF_1HR_MAX'' = [?p]"
    by (subst convertGRIB2ToRadarPoints_small)
       (simp_all add: convert_sample_def js_index_def classifyPrecipitation_def
          scraper_getColorForReflectivity_def)
  then have "?p \<in> set (convertGRIB2ToRadarPoints ?fd ''BREF_1HR_MAX'')" by simp
  from decoder_points[OF this] show ?thesis by auto
qed

text \<open>
  The claim as stated fails where it says that the latitude and the longitude of every
  point are finite: a field whose coordinate arrays hold \<open>NaN\<close> (or \<open>null\<close>, or
  are shorter than the values) gives a point with these coordinates.
\<close>

theorem decoder_points_counterexample:
  "convertGRIB2ToRadarPoints
     \<lparr>values_a = [Num 5], latitudes = [NaN], longitudes = [NaN]\<rparr> ''BREF_1HR_MAX'' =
     [\<lparr>coordinates = (NaN, NaN), reflectivity = Num 5,
       precipitation = ''light'', color = ''#00ff00'',
       source = Some ''MRMS_GRIB2'', field = Some ''BREF_1HR_MAX'', station = None\<rparr>] \<and>
   \<not> js_finite NaN"
  by (subst convertGRIB2ToRadarPoints_small)
     (simp_all add: convert_sample_def js_index_def classifyPrecipitation_def
        scraper_getColorForReflectivity_def)

text \<open>
  C2, as amended. For the field \<open>BREF_1HR_MAX\<close> with the values
  \<open>[5, 15, 25, -1, NaN]\<close> and latitude and longitude arrays of length 5, the decoder
  drops the indices 3 and 4 and keeps three points; it labels them with the scraper's
  own classifier, which has no category \<open>none\<close>: 5 is \<open>light\<close> with \<open>#00ff00\<close>,
  15 is \<open>light\<close> with \<open>#00ff00\<close>, 25 is \<open>moderate\<close> with \<open>#ffff00\<close>.
\<close>

theorem decode_scenario:
  "convertGRIB2ToRadarPoints
     \<lparr>values_a = [Num 5, Num 15, Num 25, Num (-1), NaN],
      latitudes = [la0, la1, la2, la3, la4],
      longitudes = [lo0, lo1, lo2, lo3, lo4]\<rparr> ''BREF_1HR_MAX'' =
   [\<lparr>coordinates = (lo0, la0), reflectivity = Num 5,
     precipitation = ''light'', color = ''#00ff00'',
     source = Some ''MRMS_GRIB2'', field = Some ''BREF_1HR_MAX'', station = None\<rparr>,
    \<lparr>coordinates = (lo1, la1), reflectivity = Num 15,
     precipitation = ''light'', color = ''#00ff00'',
     source = Some ''MRMS_GRIB2'', field = Some ''BREF_1HR_MAX'', station = None\<rparr>,
    \<lparr>coordinates = (lo2, la2), reflectivity = Num 25,
     precipitation = ''moderate'', color = ''#ffff00'',
     source = Some ''MRMS_GRIB2'', field = Some ''BREF_1HR_MAX'', station = None\<rparr>]"
proof -
  let ?fd = "\<lparr>values_a = [Num 5, Num 15, Num 25, Num (-1), NaN],
              latitudes = [la0, la1, la2, la3, la4],
              longitudes = [lo0, lo1, lo2, lo3, lo4]\<rparr>"
  have idx: "[0..<length (values_a ?fd)] = [0, 1, 2, 3, 4]"
    by (simp add: upt_rec[of 0] upt_rec[of "Suc 0"])
  have s0: "convert_sample ?fd ''BREF_1HR_MAX'' 0 =
      Some \<lparr>coordinates = (lo0, la0), reflectivity = Num 5,
            precipitation = ''light'', color = ''#00ff00'',
            source = Some ''MRMS_GRIB2'', field = Some ''BREF_1HR_MAX'', station = None\<rparr>"
    by (simp add: convert_sample_def js_index_def classifyPrecipitation_def
          scraper_getColorForReflectivity_def)
  have s1: "convert_sample ?fd ''BREF_1HR_MAX'' 1 =
      Some \<lparr>coordinates = (lo1, la1), reflectivity = Num 15,
            precipitation = ''light'', color = ''#00ff00'',
            source = Some ''MRMS_GRIB2'', field = Some ''BREF_1HR_MAX'', station = None\<rparr>"
    by (simp add: convert_sample_def js_index_def classifyPrecipitation_def
          scraper_getColorForReflectivity_def)
  have s2: "convert_sample ?fd ''BREF_1HR_MAX'' 2 =
      Some \<lparr>coordinates = (lo2, la2), reflectivity = Num 25,
            precipitation = ''moderate'', color = ''#ffff00'',
            source = Some ''MRMS_GRIB2'', field = Some ''BREF_1HR_MAX'', station = None\<rparr>"
    by (simp add: convert_sample_def js_index_def classifyPrecipitation_def
          scraper_getColorForReflectivity_def)
  have s3: "convert_sample ?fd ''BREF_1HR_MAX'' 3 = None"
    by (simp add: convert_sample_def js_index_def)
  have s4: "convert_sample ?fd ''BREF_1HR_MAX'' 4 = None"
    by (simp add: convert_sample_def js_index_def)
  have "convertGRIB2ToRadarPoints ?fd ''BREF_1HR_MAX'' =
          List.map_filter (convert_sample ?fd ''BREF_1HR_MAX'') [0, 1, 2, 3, 4]"
    by (subst convertGRIB2ToRadarPoints_small) (simp_all only: idx, simp)
  then show ?thesis
    by (simp only: List.map_filter_simps s0 s1 s2 s3 s4 option.case)
qed

text \<open>
  The claim as stated fails at the first point: reflectivity 5 is labelled \<open>light\<close>
  with \<open>#00ff00\<close>, not \<open>none\<close> with \<open>#ffffff\<close>.
\<close>

theorem decode_scenario_counterexample:
  "precipitation (convertGRIB2ToRadarPoints
      \<lparr>values_a = [Num 5, Num 15, Num 25, Num (-1), NaN],
       latitudes = [Num 30, Num 31, Num 32, Num 33, Num 34],
       longitudes = [Num (-90), Num (-91), Num (-92), Num (-93), Num (-94)]\<rparr>
      ''BREF_1HR_MAX'' ! 0) \<noteq> ''none'' \<and>
   color (convertGRIB2ToRadarPoints
      \<lparr>values_a = [Num 5, Num 15, Num 25, Num (-1), NaN],
       latitudes = [Num 30, Num 31, Num 32, Num 33, Num 34],
       longitudes = [Num (-90), Num (-91), Num (-92), Num (-93), Num (-94)]\<rparr>
      ''BREF_1HR_MAX'' ! 0) \<noteq> ''#ffffff''"
  by (subst (1 2) convertGRIB2ToRadarPoints_small)
     (simp_all add: convert_sample_def js_index_def classifyPrecipitation_def
        scraper_getColorForReflectivity_def upt_rec[of 0])

section \<open>Loops that append to an array\<close>

lemma fold_appends:
  fixes f :: "'x \<Rightarrow> 'p list \<times> 's \<Rightarrow> 'p list \<times> 's"
  assumes step: "\<And>x acc g. x \<in> set xs \<Longrightarrow> I g \<Longrightarrow>
            \<exists>ps g'. f x (acc, g) = (acc @ ps, g') \<and> I g' \<and> list_all P ps \<and>
                    L \<le> length ps \<and> length ps \<le> U"
    and init: "I g"
  shows "\<exists>ps g'. fold f xs (acc, g) = (acc @ ps, g') \<and> I g' \<and> list_all P ps \<and>
                 L * length xs \<le> length ps \<and> length ps \<le> U * length xs"
  using assms
proof (induction xs arbitrary: acc g)
  case Nil
  then show ?case by simp
next
  case (Cons x xs)
  from Cons.prems(1)[of x g acc] Cons.prems(2)
  obtain ps g1 where 1: "f x (acc, g) = (acc @ ps, g1)" "I g1" "list_all P ps"
      "L \<le> length ps" "length ps \<le> U"
    by auto
  have "\<exists>qs g'. fold f xs (acc @ ps, g1) = ((acc @ ps) @ qs, g') \<and> I g' \<and> list_all P qs \<and>
                 L * length xs \<le> length qs \<and> length qs \<le> U * length xs"
    by (rule Cons.IH) (use Cons.prems(1) 1(2) in auto)
  then obtain qs g2 where 2: "fold f xs (acc @ ps, g1) = ((acc @ ps) @ qs, g2)" "I g2"
      "list_all P qs" "L * length xs \<le> length qs" "length qs \<le> U * length xs"
    by blast
  have "fold f (x # xs) (acc, g) = (acc @ (ps @ qs), g2)"
    using 1(1) 2(1) by simp
  moreover have "list_all P (ps @ qs)" using 1(3) 2(3) by simp
  moreover have "L * length (x # xs) \<le> length (ps @ qs)" using 1(4) 2(4) by simp
  moreover have "length (ps @ qs) \<le> U * length (x # xs)" using 1(5) 2(5) by simp
  ultimately show ?case using 2(2) by blast
qed

section \<open>Random numbers in the unit interval\<close>

lemma unit_interval_0: "unit_interval g \<Longrightarrow> 0 \<le> g 0 \<and> g 0 < 1"
  by (simp add: unit_interval_def)

lemma unit_interval_Suc: "unit_interval g \<Longrightarrow> unit_interval (\<lambda>n. g (Suc n))"
  by (simp add: unit_interval_def)

lemma floor_scaled_bounds:
  fixes r :: real and k :: nat
  assumes "0 \<le> r" "r < 1" "0 < k"
  shows "0 \<le> \<lfloor>r * real k\<rfloor> \<and> \<lfloor>r * real k\<rfloor> < int k"
proof
  show "0 \<le> \<lfloor>r * real k\<rfloor>" using assms by simp
  have "r * real k < real k" using assms by simp
  then show "\<lfloor>r * real k\<rfloor> < int k" by (simp add: floor_less_iff)
qed

lemma abs_mult_cos_le: "0 \<le> a \<Longrightarrow> \<bar>a * cos x\<bar> \<le> (a::real)"
  by (simp add: abs_mult mult_left_le)

lemma abs_mult_sin_le: "0 \<le> a \<Longrightarrow> \<bar>a * sin x\<bar> \<le> (a::real)"
  by (simp add: abs_mult mult_left_le)

lemma classifier_labels:
  "(classifyPrecipitation x, scraper_getColorForReflectivity x) \<in> set scraper_labels"
  by (simp add: classifyPrecipitation_def scraper_getColorForReflectivity_def scraper_labels_def)

lemma station_bounds:
  assumes "s \<in> set getRadarStations"
  shows "29.3 \<le> station_lat s \<and> station_lat s \<le> 35.3 \<and>
         -100.3 \<le> station_lon s \<and> station_lon s \<le> -89.8"
  using assms unfolding getRadarStations_def by auto

lemma near_station_in_box:
  assumes "near_station 5 s p" "s \<in> set getRadarStations"
  shows "in_box p"
proof -
  from assms(1) obtain lon lat where c: "coordinates p = (Num lon, Num lat)"
    and d: "\<bar>lat - station_lat s\<bar> < 5" "\<bar>lon - station_lon s\<bar> < 5"
    unfolding near_station_def by (auto split: prod.splits jsval.splits)
  from station_bounds[OF assms(2)] d have "24 \<le> lat \<and> lat \<le> 49 \<and> -125 \<le> lon \<and> lon \<le> -66"
    by linarith
  then show ?thesis unfolding in_box_def c by simp
qed

section \<open>The mock generators of the scraper\<close>

lemma thunderstorm_point_step:
  assumes "unit_interval g"
  shows "\<exists>ps g'. thunderstorm_point s intensity' numPoints i (acc, g) = (acc @ ps, g') \<and>
           unit_interval g' \<and> list_all (station_point s) ps \<and> 1 \<le> length ps \<and> length ps \<le> 1"
proof -
  let ?r = "g 0 * 1.5"
  have r: "0 \<le> ?r" "?r < 5" using unit_interval_0[OF assms] by auto
  have "\<bar>?r * cos x\<bar> < 5" "\<bar>?r * sin x\<bar> < 5" for x
    using abs_mult_cos_le[OF r(1), of x] abs_mult_sin_le[OF r(1), of x] r(2) by linarith+
  moreover have "unit_interval (\<lambda>n. g (Suc (Suc n)))"
    using assms by (simp add: unit_interval_def)
  ultimately show ?thesis
    by (simp add: thunderstorm_point_def Math_random_def Let_def station_point_def
          near_station_def labelled_def classifier_labels)
qed

lemma generateThunderstormCell_appends:
  assumes "unit_interval g"
  shows "\<exists>ps g'. generateThunderstormCell acc s g = (acc @ ps, g') \<and> unit_interval g' \<and>
           list_all (station_point s) ps \<and> 5 \<le> length ps \<and> length ps \<le> 12"
proof -
  let ?n = "\<lfloor>g 0 * 8\<rfloor> + 5"
  let ?g2 = "\<lambda>n. g (Suc (Suc n))"
  have u: "unit_interval ?g2" using assms by (simp add: unit_interval_def)
  have "0 \<le> \<lfloor>g 0 * 8\<rfloor> \<and> \<lfloor>g 0 * 8\<rfloor> < 8"
    using floor_scaled_bounds[of "g 0" 8] unit_interval_0[OF assms] by simp
  then have n: "5 \<le> nat ?n" "nat ?n \<le> 12" by linarith+
  have "\<exists>ps g'. fold (thunderstorm_point s (30 + g (Suc 0) * 20) ?n) [0..<nat ?n] (acc, ?g2) = (acc @ ps, g') \<and>
           unit_interval g' \<and> list_all (station_point s) ps \<and>
           1 * length [0..<nat ?n] \<le> length ps \<and> length ps \<le> 1 * length [0..<nat ?n]"
    by (rule fold_appends[where I = unit_interval]) (use u thunderstorm_point_step in auto)
  then obtain ps g' where
    "fold (thunderstorm_point s (30 + g (Suc 0) * 20) ?n) [0..<nat ?n] (acc, ?g2) = (acc @ ps, g')"
    "unit_interval g'" "list_all (station_point s) ps" "length ps = nat ?n"
    by auto
  moreover have "generateThunderstormCell acc s g =
      fold (thunderstorm_point s (30 + g (Suc 0) * 20) ?n) [0..<nat ?n] (acc, ?g2)"
    by (simp add: generateThunderstormCell_def Math_random_def Let_def)
  ultimately show ?thesis using n by (metis (no_types, lifting))
qed

lemma front_point_step:
  assumes "unit_interval g" and i: "i < nat numPoints" and len: "0 \<le> length'" "length' < 5"
  shows "\<exists>ps g'. front_point s direction length' numPoints i (acc, g) = (acc @ ps, g') \<and>
           unit_interval g' \<and> list_all (station_point s) ps \<and> 1 \<le> length ps \<and> length ps \<le> 1"
proof -
  let ?d = "(real i / real_of_int numPoints) * length'"
  have n: "0 < real_of_int numPoints" "real i < real_of_int numPoints" using i by linarith+
  then have q: "0 \<le> real i / real_of_int numPoints" "real i / real_of_int numPoints \<le> 1"
    by simp_all
  have d0: "0 \<le> ?d" using q(1) len(1) by (rule mult_nonneg_nonneg)
  have "?d \<le> length'" using len(1) q(1) q(2) by (rule mult_left_le_one_le)
  then have d5: "?d < 5" using len(2) by linarith
  have "\<bar>?d * cos x\<bar> < 5" "\<bar>?d * sin x\<bar> < 5" for x
    using abs_mult_cos_le[OF d0, of x] abs_mult_sin_le[OF d0, of x] d5 by linarith+
  moreover have "unit_interval (\<lambda>n. g (Suc n))"
    using assms(1) by (rule unit_interval_Suc)
  ultimately show ?thesis
    by (simp add: front_point_def Math_random_def Let_def station_point_def
          near_station_def labelled_def classifier_labels)
qed

lemma generateWeatherFront_appends:
  assumes "unit_interval g"
  shows "\<exists>ps g'. generateWeatherFront acc s g = (acc @ ps, g') \<and> unit_interval g' \<and>
           list_all (station_point s) ps \<and> 10 \<le> length ps \<and> length ps \<le> 24"
proof -
  let ?n = "\<lfloor>g 0 * 15\<rfloor> + 10"
  let ?dir = "g (Suc 0) * pi * 2"
  let ?len = "2 + g (Suc (Suc 0)) * 3"
  let ?g3 = "\<lambda>n. g (Suc (Suc (Suc n)))"
  have u: "unit_interval ?g3" using assms by (simp add: unit_interval_def)
  have "0 \<le> g (Suc (Suc 0)) \<and> g (Suc (Suc 0)) < 1" using assms by (simp add: unit_interval_def)
  then have len: "0 \<le> ?len" "?len < 5" by linarith+
  have "0 \<le> \<lfloor>g 0 * 15\<rfloor> \<and> \<lfloor>g 0 * 15\<rfloor> < 15"
    using floor_scaled_bounds[of "g 0" 15] unit_interval_0[OF assms] by simp
  then have n: "10 \<le> nat ?n" "nat ?n \<le> 24" by linarith+
  have "\<exists>ps g'. fold (front_point s ?dir ?len ?n) [0..<nat ?n] (acc, ?g3) = (acc @ ps, g') \<and>
           unit_interval g' \<and> list_all (station_point s) ps \<and>
           1 * length [0..<nat ?n] \<le> length ps \<and> length ps \<le> 1 * length [0..<nat ?n]"
    by (rule fold_appends[where I = unit_interval]) (use u len front_point_step in auto)
  then obtain ps g' where
    "fold (front_point s ?dir ?len ?n) [0..<nat ?n] (acc, ?g3) = (acc @ ps, g')"
    "unit_interval g'" "list_all (station_point s) ps" "length ps = nat ?n"
    by auto
  moreover have "generateWeatherFront acc s g =
      fold (front_point s ?dir ?len ?n) [0..<nat ?n] (acc, ?g3)"
    by (simp add: generateWeatherFront_def Math_random_def Let_def)
  ultimately show ?thesis using n by (metis (no_types, lifting))
qed

lemma showers_point_step:
  assumes "unit_interval g"
  shows "\<exists>ps g'. showers_point s i (acc, g) = (acc @ ps, g') \<and>
           unit_interval g' \<and> list_all (station_point s) ps \<and> 1 \<le> length ps \<and> length ps \<le> 1"
proof -
  have "0 \<le> g 0 \<and> g 0 < 1" "0 \<le> g (Suc 0) \<and> g (Suc 0) < 1"
    using assms by (simp_all add: unit_interval_def)
  then have "\<bar>(g 0 - 0.5) * 4.0\<bar> < 5" "\<bar>(g (Suc 0) - 0.5) * 4.0\<bar> < 5"
    by (simp_all add: abs_less_iff)
  moreover have "unit_interval (\<lambda>n. g (Suc (Suc (Suc n))))"
    using assms by (simp add: unit_interval_def)
  ultimately show ?thesis
    by (simp add: showers_point_def Math_random_def Let_def station_point_def
          near_station_def labelled_def classifier_labels)
qed

lemma generateScatteredShowers_appends:
  assumes "unit_interval g"
  shows "\<exists>ps g'. generateScatteredShowers acc s g = (acc @ ps, g') \<and> unit_interval g' \<and>
           list_all (station_point s) ps \<and> 8 \<le> length ps \<and> length ps \<le> 19"
proof -
  let ?n = "\<lfloor>g 0 * 12\<rfloor> + 8"
  let ?g1 = "\<lambda>n. g (Suc n)"
  have u: "unit_interval ?g1" using assms by (rule unit_interval_Suc)
  have "0 \<le> \<lfloor>g 0 * 12\<rfloor> \<and> \<lfloor>g 0 * 12\<rfloor> < 12"
    using floor_scaled_bounds[of "g 0" 12] unit_interval_0[OF assms] by simp
  then have n: "8 \<le> nat ?n" "nat ?n \<le> 19" by linarith+
  have "\<exists>ps g'. fold (showers_point s) [0..<nat ?n] (acc, ?g1) = (acc @ ps, g') \<and>
           unit_interval g' \<and> list_all (station_point s) ps \<and>
           1 * length [0..<nat ?n] \<le> length ps \<and> length ps \<le> 1 * length [0..<nat ?n]"
    by (rule fold_appends[where I = unit_interval]) (use u showers_point_step in auto)
  then obtain ps g' where
    "fold (showers_point s) [0..<nat ?n] (acc, ?g1) = (acc @ ps, g')"
    "unit_interval g'" "list_all (station_point s) ps" "length ps = nat ?n"
    by auto
  moreover have "generateScatteredShowers acc s g = fold (showers_point s) [0..<nat ?n] (acc, ?g1)"
    by (simp add: generateScatteredShowers_def Math_random_def Let_def)
  ultimately show ?thesis using n by (metis (no_types, lifting))
qed

lemma mock_station_appends:
  assumes "unit_interval g" "s \<in> set getRadarStations"
  shows "\<exists>ps g'. mock_station s (acc, g) = (acc @ ps, g') \<and> unit_interval g' \<and>
           list_all mock_point ps \<and> 5 \<le> length ps \<and> length ps \<le> 24"
proof -
  let ?g1 = "\<lambda>n. g (Suc n)"
  have u: "unit_interval ?g1" using assms(1) by (rule unit_interval_Suc)
  have w: "list_all mock_point ps" if "list_all (station_point s) ps" for ps
    using that assms(2) unfolding mock_point_def list_all_iff by blast
  consider "g 0 < 0.3" | "\<not> g 0 < 0.3" "g 0 < 0.6" | "\<not> g 0 < 0.3" "\<not> g 0 < 0.6" by blast
  then show ?thesis
  proof cases
    case 1
    then have e: "mock_station s (acc, g) = generateThunderstormCell acc s ?g1"
      by (simp add: mock_station_def Math_random_def)
    from generateThunderstormCell_appends[OF u, of acc s] obtain ps g' where
      r: "generateThunderstormCell acc s ?g1 = (acc @ ps, g')" "unit_interval g'"
         "list_all (station_point s) ps" "5 \<le> length ps" "length ps \<le> 12"
      by blast
    have "length ps \<le> 24" using r(5) by linarith
    with e r w[OF r(3)] show ?thesis by auto
  next
    case 2
    then have e: "mock_station s (acc, g) = generateWeatherFront acc s ?g1"
      by (simp add: mock_station_def Math_random_def)
    from generateWeatherFront_appends[OF u, of acc s] obtain ps g' where
      r: "generateWeatherFront acc s ?g1 = (acc @ ps, g')" "unit_interval g'"
         "list_all (station_point s) ps" "10 \<le> length ps" "length ps \<le> 24"
      by blast
    have "5 \<le> length ps" using r(4) by linarith
    with e r w[OF r(3)] show ?thesis by auto
  next
    case 3
    then have e: "mock_station s (acc, g) = generateScatteredShowers acc s ?g1"
      by (simp add: mock_station_def Math_random_def)
    from generateScatteredShowers_appends[OF u, of acc s] obtain ps g' where
      r: "generateScatteredShowers acc s ?g1 = (acc @ ps, g')" "unit_interval g'"
         "list_all (station_point s) ps" "8 \<le> length ps" "length ps \<le> 19"
      by blast
    have "5 \<le> length ps" "length ps \<le> 24" using r(4,5) by linarith+
    with e r w[OF r(3)] show ?thesis by auto
  qed
qed

lemma getEnhancedMockData_appends:
  assumes "unit_interval g"
  shows "\<exists>ps g'. getEnhancedMockData g = (ps, g') \<and> unit_interval g' \<and>
           list_all mock_point ps \<and> 50 \<le> length ps \<and> length ps \<le> 240"
proof -
  have "\<exists>ps g'. fold mock_station getRadarStations ([], g) = ([] @ ps, g') \<and> unit_interval g' \<and>
           list_all mock_point ps \<and> 5 * length getRadarStations \<le> length ps \<and>
           length ps \<le> 24 * length getRadarStations"
    by (rule fold_appends[where I = unit_interval]) (use assms mock_station_appends in auto)
  moreover have "length getRadarStations = 10" by (simp add: getRadarStations_def)
  ultimately show ?thesis unfolding getEnhancedMockData_def by auto
qed

lemma mock_point_in_box: "mock_point p \<Longrightarrow> in_box p"
  unfolding mock_point_def using near_station_in_box station_point_def by blast

section \<open>The station strategy\<close>

lemma extract_point_step:
  assumes "unit_interval g"
  shows "\<exists>ps g'. extract_point s pop numPoints i (acc, g) = (acc @ ps, g') \<and>
           unit_interval g' \<and> list_all (station_point s) ps \<and> 1 \<le> length ps \<and> length ps \<le> 1"
proof -
  let ?r = "g 0 * 2.0"
  have r: "0 \<le> ?r" "?r < 5" using unit_interval_0[OF assms] by auto
  have "\<bar>?r * cos x\<bar> < 5" "\<bar>?r * sin x\<bar> < 5" for x
    using abs_mult_cos_le[OF r(1), of x] abs_mult_sin_le[OF r(1), of x] r(2) by linarith+
  moreover have "unit_interval (\<lambda>n. g (Suc (Suc n)))"
    using assms by (simp add: unit_interval_def)
  ultimately show ?thesis
    by (simp add: extract_point_def Math_random_def Let_def station_point_def
          near_station_def labelled_def classifier_labels)
qed

lemma extract_period_appends:
  assumes "unit_interval g"
  shows "\<exists>ps g'. extract_period s pop (acc, g) = (acc @ ps, g') \<and> unit_interval g' \<and>
           list_all (station_point s) ps \<and> 0 \<le> length ps \<and> length ps \<le> 14"
proof (cases "js_gt pop 0")
  case False
  then have "extract_period s pop (acc, g) = (acc @ [], g)"
    by (simp add: extract_period_def)
  with assms show ?thesis by (intro exI[of _ "[]"] exI[of _ g]) simp
next
  case True
  let ?n = "\<lfloor>g 0 * 10\<rfloor> + 5"
  let ?g1 = "\<lambda>n. g (Suc n)"
  have u: "unit_interval ?g1" using assms by (rule unit_interval_Suc)
  have "0 \<le> \<lfloor>g 0 * 10\<rfloor> \<and> \<lfloor>g 0 * 10\<rfloor> < 10"
    using floor_scaled_bounds[of "g 0" 10] unit_interval_0[OF assms] by simp
  then have n: "nat ?n \<le> 14" by linarith
  have "\<exists>ps g'. fold (extract_point s pop ?n) [0..<nat ?n] (acc, ?g1) = (acc @ ps, g') \<and>
           unit_interval g' \<and> list_all (station_point s) ps \<and>
           1 * length [0..<nat ?n] \<le> length ps \<and> length ps \<le> 1 * length [0..<nat ?n]"
    by (rule fold_appends[where I = unit_interval]) (use u extract_point_step in auto)
  then obtain ps g' where r:
    "fold (extract_point s pop ?n) [0..<nat ?n] (acc, ?g1) = (acc @ ps, g')"
    "unit_interval g'" "list_all (station_point s) ps" "length ps = nat ?n"
    by auto
  have "extract_period s pop (acc, g) = fold (extract_point s pop ?n) [0..<nat ?n] (acc, ?g1)"
    using True by (simp add: extract_period_def Math_random_def Let_def)
  with r n show ?thesis by auto
qed

lemma extractPrecipitationData_points:
  assumes "unit_interval g"
  shows "\<exists>ps g'. extractPrecipitationData fc s g = (ps, g') \<and> unit_interval g' \<and>
           list_all (station_point s) ps"
proof (cases "periods fc")
  case None
  with assms show ?thesis by (simp add: extractPrecipitationData_def)
next
  case (Some pops)
  have "\<exists>ps g'. fold (extract_period s) (take 3 pops) ([], g) = ([] @ ps, g') \<and> unit_interval g' \<and>
           list_all (station_point s) ps \<and> 0 * length (take 3 pops) \<le> length ps \<and>
           length ps \<le> 14 * length (take 3 pops)"
    by (rule fold_appends[where I = unit_interval]) (use assms extract_period_appends in auto)
  with Some show ?thesis by (auto simp: extractPrecipitationData_def)
qed

lemma getStationRadarData_points:
  assumes "unit_interval g"
  shows "\<exists>ps g'. getStationRadarData e s g = (ps, g') \<and> unit_interval g' \<and>
           list_all (station_point s) ps"
proof (cases "forecast e s")
  case (Inl err)
  with assms show ?thesis by (simp add: getStationRadarData_def)
next
  case (Inr fc)
  with extractPrecipitationData_points[OF assms, of fc s] show ?thesis
    by (simp add: getStationRadarData_def)
qed

lemma getStationRadarData_fails:
  "forecast e s = Inl err \<Longrightarrow> getStationRadarData e s g = ([], g)"
  by (simp add: getStationRadarData_def)

lemma nws_station_appends:
  assumes "unit_interval g" "s \<in> set (take 5 getRadarStations)"
  shows "\<exists>ps g'. nws_station e s (acc, g) = (acc @ ps, g') \<and> unit_interval g' \<and>
           list_all mock_point ps"
proof -
  from getStationRadarData_points[OF assms(1), of e s] obtain ps g' where
    r: "getStationRadarData e s g = (ps, g')" "unit_interval g'" "list_all (station_point s) ps"
    by blast
  have "s \<in> set getRadarStations" using assms(2) by (rule in_set_takeD)
  then have "list_all mock_point ps"
    using r(3) unfolding mock_point_def list_all_iff by blast
  moreover have "nws_station e s (acc, g) = (acc @ ps, g')"
    using r(1) by (simp add: nws_station_def)
  ultimately show ?thesis using r(2) by auto
qed

lemma fold_appends_points:
  fixes f :: "'x \<Rightarrow> 'p list \<times> 's \<Rightarrow> 'p list \<times> 's"
  assumes step: "\<And>x acc g. x \<in> set xs \<Longrightarrow> I g \<Longrightarrow>
            \<exists>ps g'. f x (acc, g) = (acc @ ps, g') \<and> I g' \<and> list_all P ps"
    and init: "I g"
  shows "\<exists>ps g'. fold f xs (acc, g) = (acc @ ps, g') \<and> I g' \<and> list_all P ps"
  using assms
proof (induction xs arbitrary: acc g)
  case Nil
  then show ?case by simp
next
  case (Cons x xs)
  from Cons.prems(1)[of x g acc] Cons.prems(2)
  obtain ps g1 where 1: "f x (acc, g) = (acc @ ps, g1)" "I g1" "list_all P ps"
    by auto
  have "\<exists>qs g'. fold f xs (acc @ ps, g1) = ((acc @ ps) @ qs, g') \<and> I g' \<and> list_all P qs"
    by (rule Cons.IH) (use Cons.prems(1) 1(2) in auto)
  then obtain qs g2 where 2: "fold f xs (acc @ ps, g1) = ((acc @ ps) @ qs, g2)" "I g2"
      "list_all P qs"
    by blast
  have "fold f (x # xs) (acc, g) = (acc @ (ps @ qs), g2)"
    using 1(1) 2(1) by simp
  moreover have "list_all P (ps @ qs)" using 1(3) 2(3) by simp
  ultimately show ?case using 2(2) by blast
qed

lemma getNWSRadarData_points:
  assumes "unit_interval g"
  shows "\<exists>ps g'. getNWSRadarData e g = (Inr ps, g') \<and> unit_interval g' \<and> list_all mock_point ps"
proof -
  have "\<exists>ps g'. fold (nws_station e) (take 5 getRadarStations) ([], g) = ([] @ ps, g') \<and>
           unit_interval g' \<and> list_all mock_point ps"
    by (rule fold_appends_points[where I = unit_interval])
       (use assms nws_station_appends in blast)+
  then show ?thesis by (auto simp: getNWSRadarData_def)
qed

lemma getNWSRadarData_all_fail:
  assumes "\<And>s. \<exists>err. forecast e s = Inl err"
  shows "getNWSRadarData e g = (Inr [], g)"
proof -
  have "fold (nws_station e) xs ([], g) = ([], g)" for xs
  proof (induction xs)
    case Nil
    show ?case by simp
  next
    case (Cons s xs)
    from assms[of s] obtain err where "forecast e s = Inl err" ..
    then have "nws_station e s ([], g) = ([], g)"
      by (simp add: nws_station_def getStationRadarData_fails)
    with Cons show ?case by simp
  qed
  then show ?thesis by (simp add: getNWSRadarData_def)
qed

section \<open>The pipeline\<close>

lemma nonempty_result_iff: "nonempty_result r \<longleftrightarrow> (\<exists>d. r = Inr d \<and> d \<noteq> [])"
  by (cases r) (simp_all add: nonempty_result_def)

lemma viewer_never_nonempty: "\<not> nonempty_result (getMRMSViewerData e)"
  by (simp add: nonempty_result_def getMRMSViewerData_def processMRMSProducts_def split: sum.splits)

lemma getLatestRadarData_unfold:
  "getLatestRadarData e g =
     (if nonempty_result (getMRMSNcepData e) then (getMRMSNcepData e, [GetMRMSNcepData])
      else if nonempty_result (getMRMSViewerData e)
        then (getMRMSViewerData e, [GetMRMSNcepData, GetMRMSViewerData])
      else if nonempty_result (fst (getNWSRadarData e g))
        then (fst (getNWSRadarData e g), [GetMRMSNcepData, GetMRMSViewerData, GetNWSRadarData])
      else (Inr (fst (getEnhancedMockData (snd (getNWSRadarData e g)))),
            [GetMRMSNcepData, GetMRMSViewerData, GetNWSRadarData, GetEnhancedMockData]))"
  by (auto simp: getLatestRadarData_def getLatestRadarData_try_def Let_def split_def
        nonempty_result_iff)

lemma getLatestRadarData_fallback:
  assumes "\<not> nonempty_result (getMRMSNcepData e)" "fst (getNWSRadarData e g) = Inr []"
  shows "getLatestRadarData e g =
           (Inr (fst (getEnhancedMockData (snd (getNWSRadarData e g)))),
            [GetMRMSNcepData, GetMRMSViewerData, GetNWSRadarData, GetEnhancedMockData])"
  unfolding getLatestRadarData_unfold using assms viewer_never_nonempty
  by (simp add: nonempty_result_def)

lemma getLatestRadarData_offline:
  assumes "isl (listing e)" "\<And>s. isl (forecast e s)"
  shows "getLatestRadarData e g =
           (Inr (fst (getEnhancedMockData g)),
            [GetMRMSNcepData, GetMRMSViewerData, GetNWSRadarData, GetEnhancedMockData])"
proof -
  have 1: "\<not> nonempty_result (getMRMSNcepData e)"
    using assms(1) by (cases "listing e") (simp_all add: getMRMSNcepData_def nonempty_result_def)
  have "\<exists>err. forecast e s = Inl err" for s
    using assms(2)[of s] by (cases "forecast e s") simp_all
  then have 2: "getNWSRadarData e g = (Inr [], g)" by (rule getNWSRadarData_all_fail)
  show ?thesis using getLatestRadarData_fallback[OF 1, of g] 2 by simp
qed

lemma offline_env_fails: "isl (listing offline_env)" "isl (viewer offline_env)" "isl (forecast offline_env s)"
  by (simp_all add: offline_env_def)

lemma grid_env_primary:
  "getMRMSNcepData (grid_env lat lon) =
     Inr [\<lparr>coordinates = (lon, lat), reflectivity = Num 15,
           precipitation = ''light'', color = ''#00ff00'',
           source = Some ''MRMS_GRIB2'', field = Some ''BREF_1HR_MAX'', station = None\<rparr>]"
proof -
  have "convertGRIB2ToRadarPoints \<lparr>values_a = [Num 15], latitudes = [lat], longitudes = [lon]\<rparr>
          ''BREF_1HR_MAX'' =
        [\<lparr>coordinates = (lon, lat), reflectivity = Num 15,
           precipitation = ''light'', color = ''#00ff00'',
           source = Some ''MRMS_GRIB2'', field = Some ''BREF_1HR_MAX'', station = None\<rparr>]"
    by (subst convertGRIB2ToRadarPoints_small)
       (simp_all add: convert_sample_def js_index_def classifyPrecipitation_def
          scraper_getColorForReflectivity_def)
  then show ?thesis
    by (simp add: getMRMSNcepData_def grid_env_def parseMRMSDirectory_def
          downloadAndParseGRIB2_def parseGRIB2File_def)
qed

text \<open>
  C4. A non-empty result of the primary strategy is returned at once, and no other
  method is called. In general the viewer is called exactly when the primary strategy
  threw or returned an empty array, the station strategy exactly when the viewer did so
  too, and the mock data exactly when all three did.
\<close>

theorem pipeline_short_circuit:
  "(getMRMSNcepData e = Inr radarData \<and> radarData \<noteq> [] \<longrightarrow>
      getLatestRadarData e g = (Inr radarData, [GetMRMSNcepData])) \<and>
   (GetMRMSViewerData \<in> set (snd (getLatestRadarData e g)) \<longleftrightarrow>
      \<not> nonempty_result (getMRMSNcepData e)) \<and>
   (GetNWSRadarData \<in> set (snd (getLatestRadarData e g)) \<longleftrightarrow>
      \<not> nonempty_result (getMRMSNcepData e) \<and> \<not> nonempty_result (getMRMSViewerData e)) \<and>
   (GetEnhancedMockData \<in> set (snd (getLatestRadarData e g)) \<longleftrightarrow>
      \<not> nonempty_result (getMRMSNcepData e) \<and> \<not> nonempty_result (getMRMSViewerData e) \<and>
      \<not> nonempty_result (fst (getNWSRadarData e g))) \<and>
   (\<forall>r. nonempty_result r \<longleftrightarrow> (\<exists>d. r = Inr d \<and> d \<noteq> []))"
proof (intro conjI impI allI)
  assume "getMRMSNcepData e = Inr radarData \<and> radarData \<noteq> []"
  then show "getLatestRadarData e g = (Inr radarData, [GetMRMSNcepData])"
    unfolding getLatestRadarData_unfold by (simp add: nonempty_result_def)
next
  show "GetMRMSViewerData \<in> set (snd (getLatestRadarData e g)) \<longleftrightarrow>
      \<not> nonempty_result (getMRMSNcepData e)"
    unfolding getLatestRadarData_unfold by simp
next
  show "GetNWSRadarData \<in> set (snd (getLatestRadarData e g)) \<longleftrightarrow>
      \<not> nonempty_result (getMRMSNcepData e) \<and> \<not> nonempty_result (getMRMSViewerData e)"
    unfolding getLatestRadarData_unfold by simp
next
  show "GetEnhancedMockData \<in> set (snd (getLatestRadarData e g)) \<longleftrightarrow>
      \<not> nonempty_result (getMRMSNcepData e) \<and> \<not> nonempty_result (getMRMSViewerData e) \<and>
      \<not> nonempty_result (fst (getNWSRadarData e g))"
    unfolding getLatestRadarData_unfold by simp
next
  fix r show "nonempty_result r \<longleftrightarrow> (\<exists>d. r = Inr d \<and> d \<noteq> [])"
    by (rule nonempty_result_iff)
qed

theorem pipeline_short_circuit_witness:
  "getLatestRadarData (grid_env (Num 35) (Num (-97))) (\<lambda>n. 0) =
     (Inr [\<lparr>coordinates = (Num (-97), Num 35), reflectivity = Num 15,
            precipitation = ''light'', color = ''#00ff00'',
            source = Some ''MRMS_GRIB2'', field = Some ''BREF_1HR_MAX'', station = None\<rparr>],
      [GetMRMSNcepData])"
  using pipeline_short_circuit[of "grid_env (Num 35) (Num (-97))" _ "\<lambda>n. 0"]
        grid_env_primary[of "Num 35" "Num (-97)"]
  by simp

section \<open>The mock data of the processor\<close>

lemma toFixed_3_lat:
  assumes "24 \<le> x" "x \<le> 49"
  shows "24 \<le> toFixed 3 x \<and> toFixed 3 x \<le> 49"
proof -
  have "round (24000::real) \<le> round (x * 1000)" "round (x * 1000) \<le> round (49000::real)"
    using assms by (intro round_mono; simp)+
  then have "24000 \<le> round (x * 1000)" "round (x * 1000) \<le> 49000" by simp_all
  then have "24000 \<le> real_of_int (round (x * 1000))" "real_of_int (round (x * 1000)) \<le> 49000"
    by linarith+
  then show ?thesis using assms by (simp add: toFixed_def)
qed

lemma toFixed_3_lon:
  assumes "-125 \<le> x" "x \<le> -66"
  shows "-125 \<le> toFixed 3 x \<and> toFixed 3 x \<le> -66"
proof -
  have "round (66000::real) \<le> round (- x * 1000)" "round (- x * 1000) \<le> round (125000::real)"
    using assms by (intro round_mono; simp)+
  then have "66000 \<le> round (- x * 1000)" "round (- x * 1000) \<le> 125000" by simp_all
  then have "66000 \<le> real_of_int (round (- x * 1000))"
            "real_of_int (round (- x * 1000)) \<le> 125000"
    by linarith+
  then show ?thesis using assms by (simp add: toFixed_def)
qed

lemma fold_appends_always:
  fixes f :: "'x \<Rightarrow> 'p list \<times> 's \<Rightarrow> 'p list \<times> 's"
  assumes "\<And>x acc g. x \<in> set xs \<Longrightarrow> \<exists>ps g'. f x (acc, g) = (acc @ ps, g') \<and> list_all P ps"
  shows "\<exists>ps g'. fold f xs (acc, g) = (acc @ ps, g') \<and> list_all P ps"
proof -
  have "\<exists>ps g'. fold f xs (acc, g) = (acc @ ps, g') \<and> True \<and> list_all P ps"
    by (rule fold_appends_points[where I = "\<lambda>g. True"]) (use assms in auto)
  then show ?thesis by simp
qed

lemma system_point_step:
  "\<exists>ps g'. system_point system numPoints i (acc, g) = (acc @ ps, g') \<and> list_all pt_in_box ps"
proof -
  obtain lat lon g2 where pp:
    "pattern_position system numPoints i (g 0) (\<lambda>n. g (Suc n)) = ((lat, lon), g2)"
    by (metis prod.exhaust)
  show ?thesis
    using toFixed_3_lat toFixed_3_lon
    by (simp add: system_point_def Math_random_def Let_def pp pt_in_box_def)
qed

lemma system_points_appends:
  "\<exists>ps g'. system_points system (acc, g) = (acc @ ps, g') \<and> list_all pt_in_box ps"
  unfolding system_points_def Let_def prod.case
  by (rule fold_appends_always) (rule system_point_step)

lemma mock_radarPoints_in_box: "list_all pt_in_box (fst (mock_radarPoints g))"
proof -
  obtain ws g1 where w: "generateWeatherSystems g = (ws, g1)" by (metis prod.exhaust)
  have "\<exists>ps g'. fold system_points ws ([], g1) = ([] @ ps, g') \<and> list_all pt_in_box ps"
    by (rule fold_appends_always) (rule system_points_appends)
  then show ?thesis by (auto simp: mock_radarPoints_def w)
qed

text \<open>
  C6. The regional mode does not return: \<open>createMockRadarData\<close> fills its array and
  then throws a \<open>ReferenceError\<close> for \<open>minLat\<close> while it builds the object to
  return, whatever the random numbers are.
\<close>

theorem createMockRadarData_throws:
  "createMockRadarData g = Inl (ReferenceError ''minLat'')"
  by (simp add: createMockRadarData_def createMockRadarData_scope_def split_def Let_def)

section \<open>What every strategy but the decoder returns\<close>

lemma pipeline_points:
  assumes "unit_interval g"
  shows "nonempty_result (getMRMSNcepData e) \<and>
           getLatestRadarData e g = (getMRMSNcepData e, [GetMRMSNcepData]) \<or>
         snd (getLatestRadarData e g) \<noteq> [GetMRMSNcepData] \<and>
           list_all mock_point (points_of (fst (getLatestRadarData e g)))"
proof (cases "nonempty_result (getMRMSNcepData e)")
  case True
  then show ?thesis unfolding getLatestRadarData_unfold by simp
next
  case False
  from getNWSRadarData_points[OF assms, of e] obtain ps g' where
    n: "getNWSRadarData e g = (Inr ps, g')" "unit_interval g'" "list_all mock_point ps"
    by blast
  from getEnhancedMockData_appends[OF n(2)] obtain qs g'' where
    m: "getEnhancedMockData g' = (qs, g'')" "list_all mock_point qs"
    by blast
  show ?thesis
    unfolding getLatestRadarData_unfold using False viewer_never_nonempty n m
    by (simp add: points_of_def)
qed

lemma mock_point_labelled: "mock_point p \<Longrightarrow> labelled p"
  unfolding mock_point_def station_point_def by blast

lemma mock_point_untagged: "mock_point p \<Longrightarrow> source p = None \<and> station p \<noteq> None"
  unfolding mock_point_def station_point_def by auto

lemma list_all_weaken: "list_all P xs \<Longrightarrow> (\<And>x. P x \<Longrightarrow> Q x) \<Longrightarrow> list_all Q xs"
  unfolding list_all_iff by blast

lemma convert_sample_labelled: "convert_sample fd name i = Some p \<Longrightarrow> labelled p"
  by (auto simp: convert_sample_def labelled_def classifier_labels Let_def split: if_splits)

lemma decoder_labelled: "list_all labelled (convertGRIB2ToRadarPoints fd name)"
  unfolding list_all_iff using decoder_member convert_sample_labelled by blast

lemma extract_fields_labelled:
  "list_all labelled acc \<Longrightarrow> list_all labelled (extract_fields data acc)"
proof (induction data acc rule: extract_fields.induct)
  case (1 acc)
  then show ?case by simp
next
  case (2 fieldName fd rest acc)
  then show ?case
    by (auto simp: decoder_labelled split: option.splits)
qed

lemma getMRMSNcepData_labelled: "list_all labelled (points_of (getMRMSNcepData e))"
  by (auto simp: points_of_def getMRMSNcepData_def parseMRMSDirectory_def
        downloadAndParseGRIB2_def parseGRIB2File_def extract_fields_labelled Let_def
      split: sum.splits option.splits)

lemma pipeline_labelled:
  assumes "unit_interval g"
  shows "list_all labelled (points_of (fst (getLatestRadarData e g)))"
  using pipeline_points[OF assms, of e]
proof
  assume "nonempty_result (getMRMSNcepData e) \<and>
           getLatestRadarData e g = (getMRMSNcepData e, [GetMRMSNcepData])"
  then show ?thesis using getMRMSNcepData_labelled[of e] by simp
next
  assume "snd (getLatestRadarData e g) \<noteq> [GetMRMSNcepData] \<and>
           list_all mock_point (points_of (fst (getLatestRadarData e g)))"
  then show ?thesis using list_all_weaken mock_point_labelled by blast
qed

lemma offline_result:
  assumes "isl (listing e)" "\<And>s. isl (forecast e s)" "unit_interval g"
  shows "\<exists>pts. getLatestRadarData e g =
                 (Inr pts, [GetMRMSNcepData, GetMRMSViewerData, GetNWSRadarData, GetEnhancedMockData]) \<and>
               50 \<le> length pts \<and> length pts \<le> 240 \<and> list_all mock_point pts"
  using getLatestRadarData_offline[OF assms(1,2), of g] getEnhancedMockData_appends[OF assms(3)]
  by auto

lemma unit_interval_const: "unit_interval (\<lambda>n. 0)"
  by (simp add: unit_interval_def)

section \<open>The claims about the pipeline and the classifiers\<close>

lemma fallback_result:
  assumes "\<not> nonempty_result (getMRMSNcepData e)"
    and "\<not> nonempty_result (fst (getNWSRadarData e g))"
    and "unit_interval g"
  shows "\<exists>pts. getLatestRadarData e g =
                 (Inr pts, [GetMRMSNcepData, GetMRMSViewerData, GetNWSRadarData, GetEnhancedMockData]) \<and>
               50 \<le> length pts \<and> length pts \<le> 240 \<and> list_all mock_point pts"
proof -
  from getNWSRadarData_points[OF assms(3), of e] obtain ps g' where
    n: "getNWSRadarData e g = (Inr ps, g')" "unit_interval g'"
    by blast
  from getEnhancedMockData_appends[OF n(2)] obtain qs g'' where
    m: "getEnhancedMockData g' = (qs, g'')" "list_all mock_point qs"
       "50 \<le> length qs" "length qs \<le> 240"
    by blast
  have "getLatestRadarData e g =
          (Inr qs, [GetMRMSNcepData, GetMRMSViewerData, GetNWSRadarData, GetEnhancedMockData])"
    unfolding getLatestRadarData_unfold using assms(1,2) viewer_never_nonempty n(1) m(1)
    by simp
  with m(2-4) show ?thesis by blast
qed

lemma pipeline_returns_points:
  assumes "unit_interval g"
  shows "\<exists>pts. fst (getLatestRadarData e g) = Inr pts \<and> pts \<noteq> []"
proof (cases "nonempty_result (getMRMSNcepData e)")
  case True
  then show ?thesis
    unfolding getLatestRadarData_unfold by (simp add: nonempty_result_iff)
next
  case ncep: False
  show ?thesis
  proof (cases "nonempty_result (fst (getNWSRadarData e g))")
    case True
    then show ?thesis
      unfolding getLatestRadarData_unfold using ncep viewer_never_nonempty
      by (simp add: nonempty_result_iff)
  next
    case False
    from fallback_result[OF ncep False assms] obtain pts where
      "getLatestRadarData e g =
         (Inr pts, [GetMRMSNcepData, GetMRMSViewerData, GetNWSRadarData, GetEnhancedMockData])"
      "50 \<le> length pts"
      by blast
    then have "fst (getLatestRadarData e g) = Inr pts \<and> pts \<noteq> []" by auto
    then show ?thesis ..
  qed
qed

lemma offline_env_strategies:
  "\<not> nonempty_result (getMRMSNcepData offline_env)"
  "\<not> nonempty_result (getMRMSViewerData offline_env)"
  "\<not> nonempty_result (fst (getNWSRadarData offline_env g))"
proof -
  show "\<not> nonempty_result (getMRMSNcepData offline_env)"
    by (simp add: getMRMSNcepData_def offline_env_def nonempty_result_def)
  show "\<not> nonempty_result (getMRMSViewerData offline_env)"
    by (rule viewer_never_nonempty)
  have "\<exists>err. forecast offline_env s = Inl err" for s
    by (simp add: offline_env_def)
  then have "getNWSRadarData offline_env g = (Inr [], g)"
    by (rule getNWSRadarData_all_fail)
  then show "\<not> nonempty_result (fst (getNWSRadarData offline_env g))"
    by (simp add: nonempty_result_def)
qed

section \<open>The mock data, station by station\<close>

lemma fold_blocks:
  fixes f :: "'x \<Rightarrow> 'p list \<times> 's \<Rightarrow> 'p list \<times> 's"
  assumes step: "\<And>x acc g. x \<in> set xs \<Longrightarrow> I g \<Longrightarrow>
            \<exists>ps g'. f x (acc, g) = (acc @ ps, g') \<and> I g' \<and> Q x ps"
    and init: "I g"
  shows "\<exists>pss g'. fold f xs (acc, g) = (acc @ concat pss, g') \<and> I g' \<and> list_all2 Q xs pss"
  using assms
proof (induction xs arbitrary: acc g)
  case Nil
  then have "fold f [] (acc, g) = (acc @ concat [], g) \<and> I g \<and> list_all2 Q [] []" by simp
  then show ?case by blast
next
  case (Cons x xs)
  from Cons.prems(1)[of x g acc] Cons.prems(2)
  obtain ps g1 where 1: "f x (acc, g) = (acc @ ps, g1)" "I g1" "Q x ps"
    by auto
  have "\<exists>pss g'. fold f xs (acc @ ps, g1) = ((acc @ ps) @ concat pss, g') \<and> I g' \<and>
                  list_all2 Q xs pss"
    by (rule Cons.IH) (use Cons.prems(1) 1(2) in auto)
  then obtain pss g2 where 2: "fold f xs (acc @ ps, g1) = ((acc @ ps) @ concat pss, g2)" "I g2"
      "list_all2 Q xs pss"
    by blast
  have "fold f (x # xs) (acc, g) = (acc @ concat (ps # pss), g2)"
    using 1(1) 2(1) by simp
  moreover have "list_all2 Q (x # xs) (ps # pss)" using 1(3) 2(3) by simp
  ultimately show ?case using 2(2) by blast
qed

lemma mock_station_block:
  assumes "unit_interval g"
  shows "\<exists>ps g'. mock_station s (acc, g) = (acc @ ps, g') \<and> unit_interval g' \<and>
           (5 \<le> length ps \<and> length ps \<le> 24 \<and> list_all (station_point s) ps)"
proof -
  let ?g1 = "\<lambda>n. g (Suc n)"
  have u: "unit_interval ?g1" using assms(1) by (rule unit_interval_Suc)
  consider "g 0 < 0.3" | "\<not> g 0 < 0.3" "g 0 < 0.6" | "\<not> g 0 < 0.3" "\<not> g 0 < 0.6" by blast
  then show ?thesis
  proof cases
    case 1
    then have e: "mock_station s (acc, g) = generateThunderstormCell acc s ?g1"
      by (simp add: mock_station_def Math_random_def)
    from generateThunderstormCell_appends[OF u, of acc s] obtain ps g' where
      r: "generateThunderstormCell acc s ?g1 = (acc @ ps, g')" "unit_interval g'"
         "list_all (station_point s) ps" "5 \<le> length ps" "length ps \<le> 12"
      by blast
    have "length ps \<le> 24" using r(5) by linarith
    with e r show ?thesis by auto
  next
    case 2
    then have e: "mock_station s (acc, g) = generateWeatherFront acc s ?g1"
      by (simp add: mock_station_def Math_random_def)
    from generateWeatherFront_appends[OF u, of acc s] obtain ps g' where
      r: "generateWeatherFront acc s ?g1 = (acc @ ps, g')" "unit_interval g'"
         "list_all (station_point s) ps" "10 \<le> length ps" "length ps \<le> 24"
      by blast
    have "5 \<le> length ps" using r(4) by linarith
    with e r show ?thesis by auto
  next
    case 3
    then have e: "mock_station s (acc, g) = generateScatteredShowers acc s ?g1"
      by (simp add: mock_station_def Math_random_def)
    from generateScatteredShowers_appends[OF u, of acc s] obtain ps g' where
      r: "generateScatteredShowers acc s ?g1 = (acc @ ps, g')" "unit_interval g'"
         "list_all (station_point s) ps" "8 \<le> length ps" "length ps \<le> 19"
      by blast
    have "5 \<le> length ps" "length ps \<le> 24" using r(4,5) by linarith+
    with e r show ?thesis by auto
  qed
qed

lemma getEnhancedMockData_blocks:
  assumes "unit_interval g"
  shows "\<exists>pss. fst (getEnhancedMockData g) = concat pss \<and>
           list_all2 (\<lambda>s ps. 5 \<le> length ps \<and> length ps \<le> 24 \<and> list_all (station_point s) ps)
             getRadarStations pss"
proof -
  have "\<exists>pss g'. fold mock_station getRadarStations ([], g) = ([] @ concat pss, g') \<and>
           unit_interval g' \<and>
           list_all2 (\<lambda>s ps. 5 \<le> length ps \<and> length ps \<le> 24 \<and> list_all (station_point s) ps)
             getRadarStations pss"
    by (rule fold_blocks[where I = unit_interval]) (use assms mock_station_block in auto)
  then show ?thesis unfolding getEnhancedMockData_def by auto
qed

lemma fallback_is_mock:
  assumes "\<not> nonempty_result (getMRMSNcepData e)"
    and "\<not> nonempty_result (fst (getNWSRadarData e g))"
    and "unit_interval g"
  shows "getLatestRadarData e g =
           (Inr (fst (getEnhancedMockData (snd (getNWSRadarData e g)))),
            [GetMRMSNcepData, GetMRMSViewerData, GetNWSRadarData, GetEnhancedMockData]) \<and>
         unit_interval (snd (getNWSRadarData e g))"
proof -
  from getNWSRadarData_points[OF assms(3), of e] obtain ps g' where
    n: "getNWSRadarData e g = (Inr ps, g')" "unit_interval g'"
    by blast
  then show ?thesis
    unfolding getLatestRadarData_unfold using assms(1,2) viewer_never_nonempty
    by simp
qed

text \<open>
  C5, as amended. \<open>getLatestRadarData\<close> never propagates an exception and always
  returns a non-empty array. When none of the three fetch strategies gives a non-empty
  result (each throws or returns an empty array), it has called the four methods in
  order and returns what \<open>getEnhancedMockData\<close> gives: for each of the ten stations,
  in their order, a block of 5 to 24 points, so between 50 and 240 points; each point
  of a block carries the id of the block's station, lies less than 5 degrees from it
  and has no \<open>source\<close> property.
\<close>

theorem pipeline_total_fallback:
  assumes "unit_interval g"
  shows "(\<exists>pts. fst (getLatestRadarData e g) = Inr pts \<and> pts \<noteq> []) \<and>
         (\<not> nonempty_result (getMRMSNcepData e) \<and>
          \<not> nonempty_result (getMRMSViewerData e) \<and>
          \<not> nonempty_result (fst (getNWSRadarData e g)) \<longrightarrow>
            (\<exists>pss. getLatestRadarData e g =
                     (Inr (concat pss), [GetMRMSNcepData, GetMRMSViewerData, GetNWSRadarData,
                                         GetEnhancedMockData]) \<and>
                   concat pss = fst (getEnhancedMockData (snd (getNWSRadarData e g))) \<and>
                   list_all2
                     (\<lambda>s ps. 5 \<le> length ps \<and> length ps \<le> 24 \<and>
                        list_all (\<lambda>p. source p = None \<and> station p = Some (station_id s) \<and>
                                      near_station 5 s p) ps)
                     getRadarStations pss \<and>
                   50 \<le> length (concat pss) \<and> length (concat pss) \<le> 240))"
proof (intro conjI impI)
  show "\<exists>pts. fst (getLatestRadarData e g) = Inr pts \<and> pts \<noteq> []"
    using assms by (rule pipeline_returns_points)
next
  assume a: "\<not> nonempty_result (getMRMSNcepData e) \<and>
          \<not> nonempty_result (getMRMSViewerData e) \<and>
          \<not> nonempty_result (fst (getNWSRadarData e g))"
  then have "\<not> nonempty_result (getMRMSNcepData e)"
    and "\<not> nonempty_result (fst (getNWSRadarData e g))"
    by simp_all
  from fallback_is_mock[OF this assms] have
    r: "getLatestRadarData e g =
          (Inr (fst (getEnhancedMockData (snd (getNWSRadarData e g)))),
           [GetMRMSNcepData, GetMRMSViewerData, GetNWSRadarData, GetEnhancedMockData])"
    and u: "unit_interval (snd (getNWSRadarData e g))"
    by simp_all
  from getEnhancedMockData_blocks[OF u] obtain pss where
    b: "fst (getEnhancedMockData (snd (getNWSRadarData e g))) = concat pss"
       "list_all2 (\<lambda>s ps. 5 \<le> length ps \<and> length ps \<le> 24 \<and> list_all (station_point s) ps)
          getRadarStations pss"
    by blast
  have "list_all2
          (\<lambda>s ps. 5 \<le> length ps \<and> length ps \<le> 24 \<and>
             list_all (\<lambda>p. source p = None \<and> station p = Some (station_id s) \<and>
                           near_station 5 s p) ps)
          getRadarStations pss"
    using b(2)
    by (rule list_all2_mono) (auto simp: station_point_def list_all_iff)
  moreover from getEnhancedMockData_appends[OF u]
  have "50 \<le> length (concat pss)" "length (concat pss) \<le> 240"
    unfolding b(1)[symmetric] by auto
  ultimately show "\<exists>pss. getLatestRadarData e g =
                     (Inr (concat pss), [GetMRMSNcepData, GetMRMSViewerData, GetNWSRadarData,
                                         GetEnhancedMockData]) \<and>
                   concat pss = fst (getEnhancedMockData (snd (getNWSRadarData e g))) \<and>
                   list_all2
                     (\<lambda>s ps. 5 \<le> length ps \<and> length ps \<le> 24 \<and>
                        list_all (\<lambda>p. source p = None \<and> station p = Some (station_id s) \<and>
                                      near_station 5 s p) ps)
                     getRadarStations pss \<and>
                   50 \<le> length (concat pss) \<and> length (concat pss) \<le> 240"
    using r b(1) by (intro exI[of _ pss]) simp
qed

theorem pipeline_total_fallback_witness:
  "\<exists>pss. getLatestRadarData offline_env (\<lambda>n. 0) =
           (Inr (concat pss), [GetMRMSNcepData, GetMRMSViewerData, GetNWSRadarData,
                               GetEnhancedMockData]) \<and>
         concat pss = fst (getEnhancedMockData (\<lambda>n. 0)) \<and>
         list_all2
           (\<lambda>s ps. 5 \<le> length ps \<and> length ps \<le> 24 \<and>
              list_all (\<lambda>p. source p = None \<and> station p = Some (station_id s) \<and>
                            near_station 5 s p) ps)
           getRadarStations pss \<and>
         50 \<le> length (concat pss) \<and> length (concat pss) \<le> 240"
proof -
  have "\<exists>err. forecast offline_env s = Inl err" for s
    by (simp add: offline_env_def)
  then have "getNWSRadarData offline_env (\<lambda>n. 0) = (Inr [], \<lambda>n. 0)"
    by (rule getNWSRadarData_all_fail)
  then have g: "snd (getNWSRadarData offline_env (\<lambda>n. 0)) = (\<lambda>n. 0)" by simp
  show ?thesis
    using pipeline_total_fallback[OF unit_interval_const, of offline_env, THEN conjunct2]
          offline_env_strategies(1,2) offline_env_strategies(3)[of "\<lambda>n. 0"]
    unfolding g by blast
qed

text \<open>
  The claim as stated fails where it says that every point is tagged
  \<open>source: synthetic\<close>: with every network call failing, none of the (at least 50)
  points returned has that tag.
\<close>

theorem pipeline_total_fallback_counterexample:
  "50 \<le> length (points_of (fst (getLatestRadarData offline_env (\<lambda>n. 0)))) \<and>
   list_all (\<lambda>p. source p \<noteq> Some ''synthetic'')
     (points_of (fst (getLatestRadarData offline_env (\<lambda>n. 0))))"
proof -
  from offline_result[OF offline_env_fails(1) offline_env_fails(3) unit_interval_const]
  obtain pts where
    r: "getLatestRadarData offline_env (\<lambda>n. 0) =
          (Inr pts, [GetMRMSNcepData, GetMRMSViewerData, GetNWSRadarData, GetEnhancedMockData])"
       "50 \<le> length pts" "list_all mock_point pts"
    by blast
  have "list_all (\<lambda>p. source p \<noteq> Some ''synthetic'') pts"
    using r(3) by (rule list_all_weaken) (use mock_point_untagged in auto)
  with r(1,2) show ?thesis by (simp add: points_of_def)
qed

text \<open>
  C3, as amended. Every point that the pipeline returns from a strategy other than the
  decoded grid (the viewer, which never returns a point, the station strategy, or the
  mock data) has \<open>24 \<le> lat \<le> 49\<close> and \<open>-125 \<le> lon \<le> -66\<close>; and so has every
  point that the regional generator of the processor collects, which tests the box
  before it pushes. The decoded grid is not filtered: the decoder copies the
  coordinates that the field holds.
\<close>

theorem points_in_box_unless_decoded:
  assumes "unit_interval g"
  shows "(snd (getLatestRadarData e g) \<noteq> [GetMRMSNcepData] \<longrightarrow>
            list_all in_box (points_of (fst (getLatestRadarData e g)))) \<and>
         list_all pt_in_box (fst (mock_radarPoints g))"
proof
  show "snd (getLatestRadarData e g) \<noteq> [GetMRMSNcepData] \<longrightarrow>
            list_all in_box (points_of (fst (getLatestRadarData e g)))"
  proof
    assume "snd (getLatestRadarData e g) \<noteq> [GetMRMSNcepData]"
    with pipeline_points[OF assms, of e]
    have "list_all mock_point (points_of (fst (getLatestRadarData e g)))" by auto
    then show "list_all in_box (points_of (fst (getLatestRadarData e g)))"
      by (rule list_all_weaken) (rule mock_point_in_box)
  qed
  show "list_all pt_in_box (fst (mock_radarPoints g))"
    by (rule mock_radarPoints_in_box)
qed

theorem points_in_box_unless_decoded_witness:
  "snd (getLatestRadarData offline_env (\<lambda>n. 0)) \<noteq> [GetMRMSNcepData] \<and>
   50 \<le> length (points_of (fst (getLatestRadarData offline_env (\<lambda>n. 0)))) \<and>
   list_all in_box (points_of (fst (getLatestRadarData offline_env (\<lambda>n. 0))))"
proof -
  from offline_result[OF offline_env_fails(1) offline_env_fails(3) unit_interval_const]
  obtain pts where
    r: "getLatestRadarData offline_env (\<lambda>n. 0) =
          (Inr pts, [GetMRMSNcepData, GetMRMSViewerData, GetNWSRadarData, GetEnhancedMockData])"
       "50 \<le> length pts"
    by blast
  then have "snd (getLatestRadarData offline_env (\<lambda>n. 0)) \<noteq> [GetMRMSNcepData]" by simp
  with points_in_box_unless_decoded[OF unit_interval_const, of offline_env] r
  show ?thesis by (simp add: points_of_def)
qed

text \<open>
  The claim as stated fails for the decoded grid: a field whose only sample lies at
  latitude 60 and longitude -150 gives a point that the pipeline returns as it is.
\<close>

theorem points_in_box_counterexample:
  "getLatestRadarData (grid_env (Num 60) (Num (-150))) (\<lambda>n. 0) =
     (Inr [\<lparr>coordinates = (Num (-150), Num 60), reflectivity = Num 15,
            precipitation = ''light'', color = ''#00ff00'',
            source = Some ''MRMS_GRIB2'', field = Some ''BREF_1HR_MAX'', station = None\<rparr>],
      [GetMRMSNcepData]) \<and>
   \<not> in_box \<lparr>coordinates = (Num (-150), Num 60), reflectivity = Num 15,
            precipitation = ''light'', color = ''#00ff00'',
            source = Some ''MRMS_GRIB2'', field = Some ''BREF_1HR_MAX'', station = None\<rparr>"
  unfolding getLatestRadarData_unfold grid_env_primary
  by (simp add: nonempty_result_def in_box_def)

text \<open>
  C10. With the random numbers in \<open>[0, 1)\<close>, every point of \<open>getEnhancedMockData\<close>
  lies less than 5 degrees, in latitude and in longitude, from one of the ten stations,
  whose latitudes are in \<open>[29.3, 35.3]\<close> and longitudes in \<open>[-100.3, -89.8]\<close>; so
  every point is inside the continental box, though nothing filters it.
\<close>

theorem enhanced_mock_in_box:
  assumes "unit_interval g"
  shows "list_all (\<lambda>p. in_box p \<and> (\<exists>s\<in>set getRadarStations. near_station 5 s p))
           (fst (getEnhancedMockData g)) \<and>
         (\<forall>s\<in>set getRadarStations.
            29.3 \<le> station_lat s \<and> station_lat s \<le> 35.3 \<and>
            -100.3 \<le> station_lon s \<and> station_lon s \<le> -89.8)"
proof
  from getEnhancedMockData_appends[OF assms] obtain ps g' where
    r: "getEnhancedMockData g = (ps, g')" "list_all mock_point ps"
    by blast
  have "list_all (\<lambda>p. in_box p \<and> (\<exists>s\<in>set getRadarStations. near_station 5 s p)) ps"
    using r(2)
  proof (rule list_all_weaken)
    fix p assume m: "mock_point p"
    then have "\<exists>s\<in>set getRadarStations. near_station 5 s p"
      unfolding mock_point_def station_point_def by blast
    with mock_point_in_box[OF m]
    show "in_box p \<and> (\<exists>s\<in>set getRadarStations. near_station 5 s p)" ..
  qed
  then show "list_all (\<lambda>p. in_box p \<and> (\<exists>s\<in>set getRadarStations. near_station 5 s p))
           (fst (getEnhancedMockData g))"
    by (simp add: r(1))
  show "\<forall>s\<in>set getRadarStations.
            29.3 \<le> station_lat s \<and> station_lat s \<le> 35.3 \<and>
            -100.3 \<le> station_lon s \<and> station_lon s \<le> -89.8"
    using station_bounds by blast
qed

theorem enhanced_mock_in_box_witness:
  "50 \<le> length (fst (getEnhancedMockData (\<lambda>n. 0))) \<and>
   list_all (\<lambda>p. in_box p \<and> (\<exists>s\<in>set getRadarStations. near_station 5 s p))
     (fst (getEnhancedMockData (\<lambda>n. 0)))"
proof -
  from getEnhancedMockData_appends[OF unit_interval_const]
  have "50 \<le> length (fst (getEnhancedMockData (\<lambda>n. 0)))" by auto
  with enhanced_mock_in_box[OF unit_interval_const] show ?thesis by blast
qed

text \<open>
  C9. The scraper's classifier has no category \<open>none\<close> and no colour \<open>#ffffff\<close>:
  for every value \<open>v\<close> (a number, an infinity, \<open>NaN\<close>, \<open>null\<close> or
  \<open>undefined\<close>) the category and the colour are one of the four pairs
  \<open>light/#00ff00\<close>, \<open>moderate/#ffff00\<close>, \<open>heavy/#ff8000\<close>, \<open>extreme/#ff0000\<close>,
  with the breakpoints 20, 35 and 45 for both. So every point the pipeline returns,
  from whichever strategy, is labelled with one of these pairs.
\<close>

theorem scraper_classifier_never_none:
  "(classifyPrecipitation v, scraper_getColorForReflectivity v) \<in> set scraper_labels \<and>
   classifyPrecipitation v \<noteq> ''none'' \<and> scraper_getColorForReflectivity v \<noteq> ''#ffffff'' \<and>
   (r < 20 \<longrightarrow>
      classifyPrecipitation (Num r) = ''light'' \<and>
      scraper_getColorForReflectivity (Num r) = ''#00ff00'') \<and>
   (20 \<le> r \<and> r < 35 \<longrightarrow>
      classifyPrecipitation (Num r) = ''moderate'' \<and>
      scraper_getColorForReflectivity (Num r) = ''#ffff00'') \<and>
   (35 \<le> r \<and> r < 45 \<longrightarrow>
      classifyPrecipitation (Num r) = ''heavy'' \<and>
      scraper_getColorForReflectivity (Num r) = ''#ff8000'') \<and>
   (45 \<le> r \<longrightarrow>
      classifyPrecipitation (Num r) = ''extreme'' \<and>
      scraper_getColorForReflectivity (Num r) = ''#ff0000'') \<and>
   (unit_interval g \<longrightarrow> list_all labelled (points_of (fst (getLatestRadarData e g))))"
proof (intro conjI)
  show "(classifyPrecipitation v, scraper_getColorForReflectivity v) \<in> set scraper_labels"
    by (rule classifier_labels)
  show "classifyPrecipitation v \<noteq> ''none''"
    by (simp add: classifyPrecipitation_def)
  show "scraper_getColorForReflectivity v \<noteq> ''#ffffff''"
    by (simp add: scraper_getColorForReflectivity_def)
  show "unit_interval g \<longrightarrow> list_all labelled (points_of (fst (getLatestRadarData e g)))"
    using pipeline_labelled by blast
qed (simp_all add: classifyPrecipitation_def scraper_getColorForReflectivity_def)

theorem scraper_classifier_never_none_witness:
  "classifyPrecipitation (Num 5) = ''light'' \<and>
   scraper_getColorForReflectivity (Num 5) = ''#00ff00'' \<and>
   classifyPrecipitation (Num 20) = ''moderate'' \<and>
   scraper_getColorForReflectivity (Num 20) = ''#ffff00'' \<and>
   classifyPrecipitation (Num 35) = ''heavy'' \<and>
   scraper_getColorForReflectivity (Num 35) = ''#ff8000'' \<and>
   classifyPrecipitation (Num 45) = ''extreme'' \<and>
   scraper_getColorForReflectivity (Num 45) = ''#ff0000'' \<and>
   list_all labelled (points_of (fst (getLatestRadarData offline_env (\<lambda>n. 0))))"
  using scraper_classifier_never_none[of "Num 5" 5 "\<lambda>n. 0" offline_env]
        scraper_classifier_never_none[of "Num 5" 20]
        scraper_classifier_never_none[of "Num 5" 35]
        scraper_classifier_never_none[of "Num 5" 45]
        unit_interval_const
  by simp

text \<open>
  C1. The processor's classifier follows the breakpoint table: a reflectivity in the
  range of a row (lower bound inclusive, upper bound exclusive) has the category and
  the colour of that row; every reflectivity is in the range of exactly one row, so
  there is no gap and no overlap; the index of the category does not decrease when the
  reflectivity increases. \<open>-Infinity\<close> is classified as the first row and
  \<open>Infinity\<close> as the last.
\<close>

theorem processor_classifier_table:
  "(\<forall>(lo, hi, category, colour) \<in> set breakpoint_table.
      in_row r (lo, hi, category, colour) \<longrightarrow>
        reflectivityToPrecipitation (Num r) = category \<and>
        processor_getColorForReflectivity (Num r) = colour) \<and>
   (\<exists>!row. row \<in> set breakpoint_table \<and> in_row r row) \<and>
   (r \<le> r' \<longrightarrow>
      category_index (reflectivityToPrecipitation (Num r))
        \<le> category_index (reflectivityToPrecipitation (Num r'))) \<and>
   reflectivityToPrecipitation NegInf = ''none'' \<and>
   processor_getColorForReflectivity NegInf = ''#ffffff'' \<and>
   reflectivityToPrecipitation PosInf = ''extreme'' \<and>
   processor_getColorForReflectivity PosInf = ''#800080''"
proof (intro conjI)
  show "\<forall>(lo, hi, category, colour) \<in> set breakpoint_table.
      in_row r (lo, hi, category, colour) \<longrightarrow>
        reflectivityToPrecipitation (Num r) = category \<and>
        processor_getColorForReflectivity (Num r) = colour"
    by (auto simp: breakpoint_table_def reflectivityToPrecipitation_def
          processor_getColorForReflectivity_def)
  show "\<exists>!row. row \<in> set breakpoint_table \<and> in_row r row"
  proof -
    have only: "row = row'"
      if "row \<in> set breakpoint_table" "in_row r row"
         "row' \<in> set breakpoint_table" "in_row r row'" for row row'
    proof -
      have m: "x \<in> set breakpoint_table \<longleftrightarrow>
                 x = (None, Some 10, ''none'', ''#ffffff'') \<or>
                 x = (Some 10, Some 20, ''light'', ''#00ff00'') \<or>
                 x = (Some 20, Some 30, ''moderate'', ''#ffff00'') \<or>
                 x = (Some 30, Some 40, ''heavy'', ''#ff8000'') \<or>
                 x = (Some 40, Some 50, ''extreme'', ''#ff0000'') \<or>
                 x = (Some 50, None, ''extreme'', ''#800080'')" for x
        by (simp add: breakpoint_table_def)
      from that(1,3) have
        "row = (None, Some 10, ''none'', ''#ffffff'') \<or>
         row = (Some 10, Some 20, ''light'', ''#00ff00'') \<or>
         row = (Some 20, Some 30, ''moderate'', ''#ffff00'') \<or>
         row = (Some 30, Some 40, ''heavy'', ''#ff8000'') \<or>
         row = (Some 40, Some 50, ''extreme'', ''#ff0000'') \<or>
         row = (Some 50, None, ''extreme'', ''#800080'')"
        "row' = (None, Some 10, ''none'', ''#ffffff'') \<or>
         row' = (Some 10, Some 20, ''light'', ''#00ff00'') \<or>
         row' = (Some 20, Some 30, ''moderate'', ''#ffff00'') \<or>
         row' = (Some 30, Some 40, ''heavy'', ''#ff8000'') \<or>
         row' = (Some 40, Some 50, ''extreme'', ''#ff0000'') \<or>
         row' = (Some 50, None, ''extreme'', ''#800080'')"
        unfolding m by blast+
      then show ?thesis using that(2,4) by (elim disjE; simp)
    qed
    consider "r < 10" | "10 \<le> r" "r < 20" | "20 \<le> r" "r < 30" | "30 \<le> r" "r < 40"
      | "40 \<le> r" "r < 50" | "50 \<le> r"
      by linarith
    then have "\<exists>row. row \<in> set breakpoint_table \<and> in_row r row"
    proof cases
      case 1
      then have "(None, Some 10, ''none'', ''#ffffff'') \<in> set breakpoint_table \<and> in_row r (None, Some 10, ''none'', ''#ffffff'')"
        by (simp add: breakpoint_table_def)
      then show ?thesis ..
    next
      case 2
      then have "(Some 10, Some 20, ''light'', ''#00ff00'') \<in> set breakpoint_table \<and> in_row r (Some 10, Some 20, ''light'', ''#00ff00'')"
        by (simp add: breakpoint_table_def)
      then show ?thesis ..
    next
      case 3
      then have "(Some 20, Some 30, ''moderate'', ''#ffff00'') \<in> set breakpoint_table \<and> in_row r (Some 20, Some 30, ''moderate'', ''#ffff00'')"
        by (simp add: breakpoint_table_def)
      then show ?thesis ..
    next
      case 4
      then have "(Some 30, Some 40, ''heavy'', ''#ff8000'') \<in> set breakpoint_table \<and> in_row r (Some 30, Some 40, ''heavy'', ''#ff8000'')"
        by (simp add: breakpoint_table_def)
      then show ?thesis ..
    next
      case 5
      then have "(Some 40, Some 50, ''extreme'', ''#ff0000'') \<in> set breakpoint_table \<and> in_row r (Some 40, Some 50, ''extreme'', ''#ff0000'')"
        by (simp add: breakpoint_table_def)
      then show ?thesis ..
    next
      case 6
      then have "(Some 50, None, ''extreme'', ''#800080'') \<in> set breakpoint_table \<and> in_row r (Some 50, None, ''extreme'', ''#800080'')"
        by (simp add: breakpoint_table_def)
      then show ?thesis ..
    qed
    then show ?thesis using only by blast
  qed
  show "r \<le> r' \<longrightarrow>
      category_index (reflectivityToPrecipitation (Num r))
        \<le> category_index (reflectivityToPrecipitation (Num r'))"
    by (auto simp: reflectivityToPrecipitation_def category_index_def)
qed (simp_all add: reflectivityToPrecipitation_def processor_getColorForReflectivity_def)

theorem processor_classifier_table_witness:
  "reflectivityToPrecipitation (Num 9.99) = ''none'' \<and>
   processor_getColorForReflectivity (Num 9.99) = ''#ffffff'' \<and>
   reflectivityToPrecipitation (Num 10) = ''light'' \<and>
   processor_getColorForReflectivity (Num 10) = ''#00ff00'' \<and>
   reflectivityToPrecipitation (Num 19.99) = ''light'' \<and>
   reflectivityToPrecipitation (Num 20) = ''moderate'' \<and>
   processor_getColorForReflectivity (Num 20) = ''#ffff00'' \<and>
   reflectivityToPrecipitation (Num 30) = ''heavy'' \<and>
   processor_getColorForReflectivity (Num 30) = ''#ff8000'' \<and>
   reflectivityToPrecipitation (Num 40) = ''extreme'' \<and>
   processor_getColorForReflectivity (Num 40) = ''#ff0000'' \<and>
   reflectivityToPrecipitation (Num 50) = ''extreme'' \<and>
   processor_getColorForReflectivity (Num 50) = ''#800080'' \<and>
   category_index (reflectivityToPrecipitation (Num 9.99))
     \<le> category_index (reflectivityToPrecipitation (Num 10))"
proof -
  have in_first: "in_row 9.99 (None, Some 10, ''none'', ''#ffffff'')"
    and in_second: "in_row 10 (Some 10, Some 20, ''light'', ''#00ff00'')"
                   "in_row 19.99 (Some 10, Some 20, ''light'', ''#00ff00'')"
    and in_third: "in_row 20 (Some 20, Some 30, ''moderate'', ''#ffff00'')"
    and in_fourth: "in_row 30 (Some 30, Some 40, ''heavy'', ''#ff8000'')"
    and in_fifth: "in_row 40 (Some 40, Some 50, ''extreme'', ''#ff0000'')"
    and in_sixth: "in_row 50 (Some 50, None, ''extreme'', ''#800080'')"
    by simp_all
  have rows: "\<And>r lo hi category colour.
      (lo, hi, category, colour) \<in> set breakpoint_table \<Longrightarrow> in_row r (lo, hi, category, colour) \<Longrightarrow>
      reflectivityToPrecipitation (Num r) = category \<and>
      processor_getColorForReflectivity (Num r) = colour"
    using processor_classifier_table[THEN conjunct1] by blast
  have mono: "category_index (reflectivityToPrecipitation (Num 9.99))
     \<le> category_index (reflectivityToPrecipitation (Num 10))"
    using processor_classifier_table[of "9.99" 10] by simp
  show ?thesis
    using rows[OF _ in_first] rows[OF _ in_second(1)] rows[OF _ in_second(2)]
          rows[OF _ in_third] rows[OF _ in_fourth] rows[OF _ in_fifth] rows[OF _ in_sixth] mono
    by (simp add: breakpoint_table_def)
qed

end
